theory Spec2Isabelle
  imports Main
begin

section \<open>Python values, dictionaries and strings\<close>

text \<open>
  The values that travel through the parameter dictionaries of PoGit: \<open>None\<close>, strings,
  integers, floats, lists and tuples. Floating point numbers are kept abstract: the type
  parameter \<open>'f\<close> stands for Python's \<open>float\<close>.
\<close>

datatype 'f pyval =
    PyNone
  | PyStr string
  | PyInt int
  | PyFloat 'f
  | PyList "'f pyval list"
  | PyTuple "'f pyval list"

text \<open>The exceptions; a \<open>KeyError\<close> carries the key that was not found.\<close>

datatype 'f error =
    TemplateNotFound string
  | KeyError "'f pyval"
  | ValueError string
  | AttributeError string
  | IndexError
  | TypeError

text \<open>
  A Python \<open>dict\<close> with string keys is an association list in insertion order. A real
  dictionary has each key once (\<open>dict_wf\<close>); \<open>d[k] = v\<close> overwrites in place when the key is
  present and appends the key otherwise.
\<close>

type_synonym 'v dict = "(string \<times> 'v) list"

definition dict_keys :: "'v dict \<Rightarrow> string list" where
  "dict_keys d = map fst d"

definition dict_wf :: "'v dict \<Rightarrow> bool" where
  "dict_wf d = distinct (dict_keys d)"

fun dict_set :: "string \<Rightarrow> 'v \<Rightarrow> 'v dict \<Rightarrow> 'v dict" where
  "dict_set k v [] = [(k, v)]"
| "dict_set k v (p # ps) = (if fst p = k then (k, v) # ps else p # dict_set k v ps)"

text \<open>\<open>{**a, **b}\<close>: the items of \<open>a\<close>, then every item of \<open>b\<close> stored over them.\<close>

definition dict_merge :: "'v dict \<Rightarrow> 'v dict \<Rightarrow> 'v dict" where
  "dict_merge a b = fold (\<lambda>(k, v) acc. dict_set k v acc) b a"

text \<open>\<open>sep.join(xs)\<close> on a list of strings.\<close>

fun join :: "string \<Rightarrow> string list \<Rightarrow> string" where
  "join sep [] = []"
| "join sep [x] = x"
| "join sep (x # y # ys) = x @ sep @ join sep (y # ys)"

text \<open>\<open>s.split(sep)\<close> for a separator of one character: never an empty list.\<close>

fun str_split :: "char \<Rightarrow> string \<Rightarrow> string list" where
  "str_split sep [] = [[]]"
| "str_split sep (c # cs) =
     (if c = sep then [] # str_split sep cs
      else (case str_split sep cs of
              [] \<Rightarrow> [[c]]
            | w # ws \<Rightarrow> (c # w) # ws))"

text \<open>
  \<open>s.replace(old, new)\<close>: every occurrence of \<open>old\<close>, found from left to right without
  overlap, is replaced. With an empty \<open>old\<close> Python inserts \<open>new\<close> before every character
  and at the end.
\<close>

function str_replace_from :: "string \<Rightarrow> string \<Rightarrow> string \<Rightarrow> string" where
  "str_replace_from old new [] = []"
| "str_replace_from old new (c # cs) =
     (if old \<noteq> [] \<and> take (length old) (c # cs) = old
      then new @ str_replace_from old new (drop (length old) (c # cs))
      else c # str_replace_from old new cs)"
  by pat_completeness auto
termination
  by (relation "measure (\<lambda>(old, new, s). length s)") auto

definition str_replace :: "string \<Rightarrow> string \<Rightarrow> string \<Rightarrow> string" where
  "str_replace s old new =
     (if old = [] then new @ concat (map (\<lambda>c. c # new) s)
      else str_replace_from old new s)"

section \<open>Template contributions and domain objects\<close>

text \<open>
  One entry of \<open>obj.templates\<close>: a dictionary with the key \<open>'filename'\<close> and, each
  optionally, the keys \<open>'MainArgs'\<close>, \<open>'AppendableArgs'\<close> and \<open>'CommaAppendableArgs'\<close>.
  A bucket that is absent is \<open>None\<close>. The fragments of the two appendable buckets are
  strings, as \<open>join\<close> requires.
\<close>

record 'f template =
  filename :: string
  MainArgs :: "'f pyval dict option"
  AppendableArgs :: "string dict option"
  CommaAppendableArgs :: "string dict option"

text \<open>A domain object, as the writer sees it: anything with a list \<open>templates\<close>.\<close>

record 'f domain_object =
  templates :: "'f template list"

section \<open>\<open>writer.py\<close>: \<open>WriteSimulationFiles\<close>\<close>

definition path_include :: string where
  "path_include = ''./include/picongpu/param/''"

definition path_etc :: string where
  "path_etc = ''./etc/picongpu/''"

text \<open>Lines 24 to 29: list all template files affected by the objects.\<close>

definition FilesList :: "('f, 'm) domain_object_scheme list \<Rightarrow> string list" where
  "FilesList objs =
     fold (\<lambda>obj FL.
        fold (\<lambda>objectTemplate FL.
           if filename objectTemplate \<notin> set FL then FL @ [filename objectTemplate] else FL)
          (templates obj) FL)
       objs []"

text \<open>
  Lines 56 to 60 (and 64 to 68): create the list for a new key, then append the fragment
  to the list of the key.
\<close>

definition list_of_key :: "string list dict \<Rightarrow> string \<Rightarrow> string list" where
  "list_of_key acc arg = (case map_of acc arg of Some fs \<Rightarrow> fs | None \<Rightarrow> [])"

definition append_fragment :: "string \<Rightarrow> string \<Rightarrow> string list dict \<Rightarrow> string list dict" where
  "append_fragment arg v acc =
     (let acc1 = (if arg \<notin> set (dict_keys acc) then dict_set arg [] acc else acc)
      in dict_set arg (list_of_key acc1 arg @ [v]) acc1)"

text \<open>
  Lines 55 and 63: \<open>for arg in bucket.keys()\<close>, reading \<open>bucket[arg]\<close>. The key comes from
  the bucket itself, so the read never fails.
\<close>

definition append_bucket :: "string dict \<Rightarrow> string list dict \<Rightarrow> string list dict" where
  "append_bucket bucket acc =
     fold (\<lambda>arg acc. case map_of bucket arg of
                        Some v \<Rightarrow> append_fragment arg v acc
                      | None \<Rightarrow> acc)
       (dict_keys bucket) acc"

text \<open>
  Lines 44 to 68: the body of the inner loop for one contribution. The state is the
  triple of \<open>templateMainArgs\<close>, \<open>templateAppendableArgs\<close> and
  \<open>templateCommaAppendableArgs\<close>.
\<close>

type_synonym 'f buckets = "'f pyval dict \<times> string list dict \<times> string list dict"

definition gather_template :: "string \<Rightarrow> 'f template \<Rightarrow> 'f buckets \<Rightarrow> 'f buckets" where
  "gather_template fname objectTemplate b =
     (case b of (templateMainArgs, templateAppendableArgs, templateCommaAppendableArgs) \<Rightarrow>
        if filename objectTemplate \<noteq> fname then b
        else
          (case MainArgs objectTemplate of
             Some m \<Rightarrow> m
           | None \<Rightarrow> templateMainArgs,
           case AppendableArgs objectTemplate of
             Some a \<Rightarrow> append_bucket a templateAppendableArgs
           | None \<Rightarrow> templateAppendableArgs,
           case CommaAppendableArgs objectTemplate of
             Some c \<Rightarrow> append_bucket c templateCommaAppendableArgs
           | None \<Rightarrow> templateCommaAppendableArgs))"

text \<open>Lines 37 to 68: the three empty dictionaries, then both loops.\<close>

definition gather_args :: "('f, 'm) domain_object_scheme list \<Rightarrow> string \<Rightarrow> 'f buckets" where
  "gather_args objs fname =
     fold (\<lambda>obj b. fold (gather_template fname) (templates obj) b) objs ([], [], [])"

text \<open>Lines 70 to 72: every list of fragments is joined with a newline.\<close>

definition join_appendable :: "string list dict \<Rightarrow> 'f pyval dict" where
  "join_appendable acc = map (\<lambda>(arg, fs). (arg, PyStr (join ''\<newline>'' fs))) acc"

text \<open>
  Lines 74 to 77: a list that is not empty is joined with a comma and a newline; an
  empty one would stay in the dictionary as it is.
\<close>

definition join_comma :: "string list dict \<Rightarrow> 'f pyval dict" where
  "join_comma acc =
     map (\<lambda>(arg, fs). (arg, if length fs > 0 then PyStr (join '',\<newline>'' fs)
                             else PyList (map PyStr fs))) acc"

definition templateMainArgs :: "('f, 'm) domain_object_scheme list \<Rightarrow> string \<Rightarrow> 'f pyval dict" where
  "templateMainArgs objs fname = fst (gather_args objs fname)"

definition templateAppendableArgs ::
  "('f, 'm) domain_object_scheme list \<Rightarrow> string \<Rightarrow> 'f pyval dict" where
  "templateAppendableArgs objs fname = join_appendable (fst (snd (gather_args objs fname)))"

definition templateCommaAppendableArgs ::
  "('f, 'm) domain_object_scheme list \<Rightarrow> string \<Rightarrow> 'f pyval dict" where
  "templateCommaAppendableArgs objs fname = join_comma (snd (snd (gather_args objs fname)))"

text \<open>Lines 79 to 81: the render context of one file.\<close>

definition templateArgs :: "('f, 'm) domain_object_scheme list \<Rightarrow> string \<Rightarrow> 'f pyval dict" where
  "templateArgs objs fname =
     dict_merge (dict_merge (templateMainArgs objs fname) (templateAppendableArgs objs fname))
       (templateCommaAppendableArgs objs fname)"

text \<open>Lines 83 to 90: the name and the directory of the destination file.\<close>

definition filename_dest :: "string \<Rightarrow> string" where
  "filename_dest fname =
     (if hd (str_split CHR ''.'' fname) = ''run''
      then str_replace fname ''template'' ''cfg''
      else str_replace fname ''template'' ''param'')"

definition dest_path :: "string \<Rightarrow> string" where
  "dest_path fname =
     (if hd (str_split CHR ''.'' fname) = ''run''
      then path_etc @ str_replace fname ''template'' ''cfg''
      else path_include @ str_replace fname ''template'' ''param'')"

text \<open>
  What the pass changes: the files on disk, by path, and the lines printed. The
  templates directory is read only and the template engine is a function of the template
  text and the context; both are parameters: \<open>load\<close> gives the text of the template file
  of that name, \<open>None\<close> when there is none, and \<open>render\<close> is Mako's
  \<open>Template(...).render(**context)\<close>. The output directories are taken to be writable.
\<close>

record pass_state =
  disk :: "string \<rightharpoonup> string"
  stdout :: "string list"

text \<open>Lines 36 to 92 for a file whose template has been loaded.\<close>

definition write_file ::
  "(string \<Rightarrow> 'f pyval dict \<Rightarrow> string) \<Rightarrow> ('f, 'm) domain_object_scheme list \<Rightarrow>
   string \<Rightarrow> string \<Rightarrow> pass_state \<Rightarrow> pass_state" where
  "write_file render objs fname template st =
     (let out = render template (templateArgs objs fname)
      in st\<lparr>disk := (disk st)(dest_path fname \<mapsto> out),
             stdout := stdout st @ [filename_dest fname]\<rparr>)"

text \<open>
  Lines 32 to 92: the loop over \<open>FilesList\<close>. The template is built first (line 34); when
  its file is missing the exception leaves the loop with the state reached so far.
\<close>

fun render_files ::
  "(string \<Rightarrow> string option) \<Rightarrow> (string \<Rightarrow> 'f pyval dict \<Rightarrow> string) \<Rightarrow>
   ('f, 'm) domain_object_scheme list \<Rightarrow> string list \<Rightarrow> pass_state \<Rightarrow>
   pass_state \<times> 'f error option" where
  "render_files load render objs [] st = (st, None)"
| "render_files load render objs (fname # rest) st =
     (case load fname of
        None \<Rightarrow> (st, Some (TemplateNotFound fname))
      | Some template \<Rightarrow>
          render_files load render objs rest (write_file render objs fname template st))"

definition WriteSimulationFiles ::
  "(string \<Rightarrow> string option) \<Rightarrow> (string \<Rightarrow> 'f pyval dict \<Rightarrow> string) \<Rightarrow>
   ('f, 'm) domain_object_scheme list \<Rightarrow> pass_state \<Rightarrow> pass_state \<times> 'f error option" where
  "WriteSimulationFiles load render objs st =
     render_files load render objs (FilesList objs) st"

section \<open>\<open>particle.py\<close>: the constructor of \<open>Particle\<close>\<close>

record 'f Particle = "'f domain_object" +
  name :: string

text \<open>
  The arguments of \<open>Particle.__init__\<close> after \<open>name\<close>, typed as its docstring types them;
  an argument whose default is \<open>None\<close> is \<open>PyNone\<close> or \<open>None\<close> when absent.
  \<open>initial_positions\<close> is a pair of a string and a number or a triple of numbers.
\<close>

record 'f particle_args =
  species :: string
  initial_positions :: "(string \<times> 'f pyval) option"
  typicalNppc :: "'f pyval"
  density_profile :: "'f pyval dict option"
  base_density :: "'f pyval"
  relative_density :: "'f pyval"
  element :: "string option"
  initial_charge :: "'f pyval"
  mass_ratio :: "'f pyval"
  charge_ratio :: "'f pyval"
  target_species :: "'f Particle option"
  ionizer_polarization :: "'f pyval"
  initial_temperature :: "'f pyval"
  shape_order :: int
  pusher :: "'f pyval"
  current_deposition :: "'f pyval"

text \<open>
  What the constructor imports: the codelets (template texts, single or in tables by
  name), the template engine, the periodic table and float arithmetic and formatting.
  \<open>table_element\<close> gives the mass and the atomic number of an element, or the exception
  that the lookup raises; \<open>in_electron_masses x\<close> is \<open>x * atomic_mass / m_e\<close> and \<open>format_float x\<close>
  is \<open>f"{x:.15e}"\<close>.
\<close>

record 'f particle_env =
  StartPosition :: "string \<rightharpoonup> string"
  Manipulators :: "string \<rightharpoonup> string"
  speciesDefinition :: "string \<rightharpoonup> string"
  CreateDensity :: string
  SetIonCharge :: string
  densityProfile :: "string \<rightharpoonup> string"
  speciesNumericalParam :: string
  mako_render :: "string \<Rightarrow> 'f pyval dict \<Rightarrow> string"
  table_element :: "string option \<Rightarrow> 'f error + 'f \<times> int"
  in_electron_masses :: "'f \<Rightarrow> 'f"
  format_float :: "'f \<Rightarrow> string"

definition bind :: "'f error + 'a \<Rightarrow> ('a \<Rightarrow> 'f error + 'b) \<Rightarrow> 'f error + 'b" where
  "bind r f = (case r of Inl e \<Rightarrow> Inl e | Inr v \<Rightarrow> f v)"

text \<open>\<open>table[key]\<close> on a table of the codelets.\<close>

definition table_get :: "(string \<rightharpoonup> string) \<Rightarrow> string \<Rightarrow> 'f error + string" where
  "table_get table key =
     (case table key of None \<Rightarrow> Inl (KeyError (PyStr key)) | Some v \<Rightarrow> Inr v)"

text \<open>\<open>d[key]\<close> on a dictionary.\<close>

definition dict_get :: "'v dict \<Rightarrow> string \<Rightarrow> 'f error + 'v" where
  "dict_get d key =
     (case map_of d key of None \<Rightarrow> Inl (KeyError (PyStr key)) | Some v \<Rightarrow> Inr v)"

text \<open>
  A value can be a dictionary key when it is hashable: a list is not, and a tuple is when
  its elements are.
\<close>

fun hashable :: "'f pyval \<Rightarrow> bool" where
  "hashable (PyList xs) = False"
| "hashable (PyTuple xs) = (\<forall>x \<in> set xs. hashable x)"
| "hashable v = True"

text \<open>\<open>v[i]\<close> for an index that is not negative.\<close>

definition py_index :: "'f pyval \<Rightarrow> nat \<Rightarrow> 'f error + 'f pyval" where
  "py_index v i =
     (case v of
        PyList xs \<Rightarrow> if i < length xs then Inr (xs ! i) else Inl IndexError
      | PyTuple xs \<Rightarrow> if i < length xs then Inr (xs ! i) else Inl IndexError
      | PyStr s \<Rightarrow> if i < length s then Inr (PyStr [s ! i]) else Inl IndexError
      | _ \<Rightarrow> Inl TypeError)"

text \<open>\<open>f"{n:d}"\<close>: an integer in decimal.\<close>

function show_nat :: "nat \<Rightarrow> string" where
  "show_nat n =
     (if n < 10 then [''0123456789'' ! n]
      else show_nat (n div 10) @ [''0123456789'' ! (n mod 10)])"
  by pat_completeness auto
termination
  by (relation "measure (\<lambda>n. n)") auto

definition show_int :: "int \<Rightarrow> string" where
  "show_int i = (if i < 0 then CHR ''-'' # show_nat (nat (- i)) else show_nat (nat i))"

definition is_ionizable :: "string \<Rightarrow> bool" where
  "is_ionizable sp = (sp = ''generic_ionizable'' \<or> sp = ''ion'')"

text \<open>Lines 128 to 131.\<close>

definition ParticleShape :: "int \<Rightarrow> 'f error + string" where
  "ParticleShape order =
     (if order = 1 then Inr ''CIC''
      else if order = 2 then Inr ''TSC''
      else if order = 3 then Inr ''PCS''
      else if order = 4 then Inr ''P4S''
      else Inl (KeyError (PyInt order)))"

text \<open>Lines 137 to 143.\<close>

definition positions_params ::
  "(string \<times> 'f pyval) option \<Rightarrow> 'f pyval dict \<Rightarrow> 'f error + 'f pyval dict" where
  "positions_params ip params =
     (case ip of
        None \<Rightarrow> Inr params
      | Some (kind, payload) \<Rightarrow>
          if kind = ''Ordered'' then
            bind (py_index payload 0) (\<lambda>x.
            bind (py_index payload 1) (\<lambda>y.
            bind (py_index payload 2) (\<lambda>z.
              Inr (dict_set ''NppcZ'' z (dict_set ''NppcY'' y (dict_set ''NppcX'' x params))))))
          else if kind = ''Random'' then Inr (dict_set ''Nppc'' payload params)
          else Inr params)"

text \<open>Lines 153 to 160.\<close>

definition ionizable_params ::
  "'f particle_args \<Rightarrow> 'f pyval dict \<Rightarrow> 'f error + 'f pyval dict" where
  "ionizable_params args params =
     (if species args = ''generic_ionizable'' \<or> species args = ''ion'' then
        (case element args of
           None \<Rightarrow> Inl (ValueError (species args @ '' needs `element` argument''))
         | Some el \<Rightarrow>
             (case target_species args of
                None \<Rightarrow> Inl (AttributeError ''name'')
              | Some target \<Rightarrow>
                  Inr (dict_set ''pol'' (ionizer_polarization args)
                      (dict_set ''InitialCharge'' (initial_charge args)
                      (dict_set ''TargetSpeciesName'' (PyStr (name target))
                      (dict_set ''Element'' (PyStr el) params))))))
      else Inr params)"

text \<open>Lines 162 to 168.\<close>

definition mass_charge_params ::
  "'f particle_env \<Rightarrow> 'f particle_args \<Rightarrow> 'f pyval dict \<Rightarrow> 'f error + 'f pyval dict" where
  "mass_charge_params env args params =
     (if species args = ''generic_ionizable'' \<or> species args = ''generic_nonionizable'' then
        Inr (dict_set ''ChargeRatio'' (charge_ratio args)
            (dict_set ''MassRatio'' (mass_ratio args) params))
      else if species args = ''ion'' then
        bind (table_element env (element args)) (\<lambda>(mass, atomic_number).
          Inr (dict_set ''ChargeRatio'' (PyInt (- atomic_number))
              (dict_set ''MassRatio'' (PyFloat (in_electron_masses env mass)) params)))
      else Inr params)"

text \<open>Lines 171 to 176: floats and integers become strings.\<close>

definition stringify :: "'f particle_env \<Rightarrow> 'f pyval \<Rightarrow> 'f pyval" where
  "stringify env v =
     (case v of
        PyFloat x \<Rightarrow> PyStr (format_float env x)
      | PyInt n \<Rightarrow> PyStr (show_int n)
      | _ \<Rightarrow> v)"

text \<open>Lines 125 to 176: the dictionary \<open>params\<close>.\<close>

definition build_params ::
  "'f particle_env \<Rightarrow> string \<Rightarrow> 'f particle_args \<Rightarrow> 'f error + 'f pyval dict" where
  "build_params env nm args =
     bind (ParticleShape (shape_order args)) (\<lambda>shape.
     let params = dict_set ''type'' (PyStr (species args)) (dict_set ''name'' (PyStr nm) []);
         params = dict_set ''ParticleShape'' (PyStr shape) params;
         params = dict_set ''CurrentSolver'' (current_deposition args) params;
         params = dict_set ''ParticlePusher'' (pusher args) params;
         params = dict_set ''Temperature'' (initial_temperature args) params
     in
     bind (positions_params (initial_positions args) params) (\<lambda>params.
     let params = (if typicalNppc args \<noteq> PyNone
                   then dict_set ''TYPICAL_PARTICLES_PER_CELL'' (typicalNppc args) params
                   else params);
         params = (if base_density args \<noteq> PyNone
                   then dict_set ''BASE_DENSITY'' (base_density args) params
                   else params);
         params = dict_set ''DensityRatio'' (relative_density args) params
     in
     bind (ionizable_params args params) (\<lambda>params.
     bind (mass_charge_params env args params) (\<lambda>params.
       Inr (map (\<lambda>(arg, v). (arg, stringify env v)) params)))))"

text \<open>Lines 179 to 183.\<close>

definition template_species :: "'f particle_env \<Rightarrow> 'f pyval dict \<Rightarrow> 'f template" where
  "template_species env params =
     \<lparr>filename = ''species.template'',
      MainArgs = None,
      AppendableArgs =
        Some [(''speciesNumericalParam'', mako_render env (speciesNumericalParam env) params)],
      CommaAppendableArgs = None\<rparr>"

text \<open>Lines 186 to 194.\<close>

definition template_speciesDefinition ::
  "'f particle_env \<Rightarrow> string \<Rightarrow> 'f particle_args \<Rightarrow> 'f pyval dict \<Rightarrow> 'f error + 'f template" where
  "template_speciesDefinition env nm args params =
     bind (table_get (speciesDefinition env) (species args)) (\<lambda>text.
       Inr \<lparr>filename = ''speciesDefinition.template'',
            MainArgs = None,
            AppendableArgs = Some [(''SpeciesDefinition'', mako_render env text params)],
            CommaAppendableArgs = Some [(''SpeciesRuntimeName'', ''PIC_'' @ nm)]\<rparr>)"

text \<open>Lines 208 to 216: the list of manipulators.\<close>

definition manipulator_list ::
  "'f particle_env \<Rightarrow> 'f particle_args \<Rightarrow> 'f pyval dict \<Rightarrow> 'f error + string list" where
  "manipulator_list env args params =
     bind (if species args = ''generic_ionizable'' \<or> species args = ''ion''
           then bind (table_get (Manipulators env) ''SetIonCharge'') (\<lambda>text.
                  Inr [mako_render env text params])
           else Inr []) (\<lambda>ms.
     if initial_temperature args \<noteq> PyNone
     then bind (table_get (Manipulators env) ''Temperature'') (\<lambda>text.
            Inr (ms @ [mako_render env text params]))
     else Inr ms)"

text \<open>Lines 197 to 219.\<close>

definition template_particle ::
  "'f particle_env \<Rightarrow> 'f particle_args \<Rightarrow> 'f pyval dict \<Rightarrow> 'f error + 'f template" where
  "template_particle env args params =
     bind (case initial_positions args of
             None \<Rightarrow> Inr []
           | Some (kind, payload) \<Rightarrow>
               bind (table_get (StartPosition env) kind) (\<lambda>text.
                 Inr [(''StartPosition'', mako_render env text params)])) (\<lambda>appendable.
     bind (manipulator_list env args params) (\<lambda>ms.
       Inr \<lparr>filename = ''particle.template'',
            MainArgs = (if typicalNppc args \<noteq> PyNone then Some params else None),
            AppendableArgs = Some (dict_set ''Manipulators'' (join ''\<newline>'' ms) appendable),
            CommaAppendableArgs = None\<rparr>))"

text \<open>Lines 228 to 233.\<close>

definition createManipulate_list ::
  "'f particle_env \<Rightarrow> 'f particle_args \<Rightarrow> 'f pyval dict \<Rightarrow> string list" where
  "createManipulate_list env args params =
     (if density_profile args \<noteq> None then [mako_render env (CreateDensity env) params] else []) @
     (if species args = ''generic_ionizable'' \<or> species args = ''ion''
      then [mako_render env (SetIonCharge env) params] else [])"

text \<open>Lines 222 to 237.\<close>

definition template_speciesInitialization ::
  "'f particle_env \<Rightarrow> 'f particle_args \<Rightarrow> 'f pyval dict \<Rightarrow> 'f template" where
  "template_speciesInitialization env args params =
     (let cm = createManipulate_list env args params
      in \<lparr>filename = ''speciesInitialization.template'',
          MainArgs = None,
          AppendableArgs = None,
          CommaAppendableArgs =
            Some (if length cm \<noteq> 0 then dict_set ''CreateManipulate'' (join '',\<newline>'' cm) []
                  else [])\<rparr>)"

text \<open>Lines 240 to 250.\<close>

definition template_density ::
  "'f particle_env \<Rightarrow> 'f particle_args \<Rightarrow> 'f pyval dict \<Rightarrow> 'f error + 'f template" where
  "template_density env args params =
     bind (case density_profile args of
             None \<Rightarrow> Inr []
           | Some profile \<Rightarrow>
               bind (dict_get profile ''type'') (\<lambda>ty.
               bind (if \<not> hashable ty then Inl TypeError
                     else (case ty of
                             PyStr s \<Rightarrow> table_get (densityProfile env) s
                           | _ \<Rightarrow> Inl (KeyError ty))) (\<lambda>text.
                 Inr [(''densityProfile'',
                       mako_render env text (dict_merge profile params))]))) (\<lambda>appendable.
       Inr \<lparr>filename = ''density.template'',
            MainArgs = (if base_density args \<noteq> PyNone then Some params else None),
            AppendableArgs = Some appendable,
            CommaAppendableArgs = None\<rparr>)"

text \<open>
  \<open>Particle.__init__\<close>: the object, or the exception that leaves the constructor. The five
  contributions are built in the order of the source and listed as lines 253 to 258 list
  them.
\<close>

definition Particle_init ::
  "'f particle_env \<Rightarrow> string \<Rightarrow> 'f particle_args \<Rightarrow> 'f error + 'f Particle" where
  "Particle_init env nm args =
     bind (build_params env nm args) (\<lambda>params.
     let t_species = template_species env params in
     bind (template_speciesDefinition env nm args params) (\<lambda>t_speciesDefinition.
     bind (template_particle env args params) (\<lambda>t_particle.
     let t_speciesInitialization = template_speciesInitialization env args params in
     bind (template_density env args params) (\<lambda>t_density.
       Inr \<lparr>templates = [t_species, t_particle, t_speciesDefinition,
                         t_speciesInitialization, t_density],
            name = nm\<rparr>))))"

section \<open>Vocabulary of the specification\<close>

text \<open>
  The contributions to one target file, in object order: objects as the caller lists
  them, the contributions of an object as it lists them.
\<close>

definition contributions :: "('f, 'm) domain_object_scheme list \<Rightarrow> string \<Rightarrow> 'f template list" where
  "contributions objs fname = filter (\<lambda>t. filename t = fname) (concat (map templates objs))"

text \<open>
  The fragments that a list of contributions supplies for the key \<open>K\<close> in one of the two
  appendable buckets, in the order of the contributions: one fragment for each
  contribution that has the bucket and the key in it.
\<close>

definition fragments ::
  "('f template \<Rightarrow> string dict option) \<Rightarrow> 'f template list \<Rightarrow> string \<Rightarrow> string list" where
  "fragments bucket ts K =
     concat (map (\<lambda>t. case bucket t of
                         None \<Rightarrow> []
                       | Some d \<Rightarrow> (case map_of d K of None \<Rightarrow> [] | Some f \<Rightarrow> [f])) ts)"

text \<open>The buckets of fragments are dictionaries: no key twice.\<close>

definition wf_bucket :: "string dict option \<Rightarrow> bool" where
  "wf_bucket b = (case b of None \<Rightarrow> True | Some d \<Rightarrow> dict_wf d)"

definition wf_template :: "'f template \<Rightarrow> bool" where
  "wf_template t = (wf_bucket (AppendableArgs t) \<and> wf_bucket (CommaAppendableArgs t))"

definition wf_objects :: "('f, 'm) domain_object_scheme list \<Rightarrow> bool" where
  "wf_objects objs = list_all (\<lambda>obj. list_all wf_template (templates obj)) objs"

text \<open>
  The three components of the loop body \<open>gather_template\<close>, one for each dictionary
  that it updates.
\<close>

definition main_step :: "string \<Rightarrow> 'f template \<Rightarrow> 'f pyval dict \<Rightarrow> 'f pyval dict" where
  "main_step fname t m =
     (if filename t \<noteq> fname then m else case MainArgs t of Some d \<Rightarrow> d | None \<Rightarrow> m)"

definition bucket_step ::
  "('f template \<Rightarrow> string dict option) \<Rightarrow> string \<Rightarrow> 'f template \<Rightarrow>
   string list dict \<Rightarrow> string list dict" where
  "bucket_step bucket fname t acc =
     (if filename t \<noteq> fname then acc
      else case bucket t of Some d \<Rightarrow> append_bucket d acc | None \<Rightarrow> acc)"

text \<open>The distinct elements of a list in the order in which each is first seen.\<close>

primrec first_seen :: "'a list \<Rightarrow> 'a list" where
  "first_seen [] = []"
| "first_seen (x # xs) = x # filter (\<lambda>y. y \<noteq> x) (first_seen xs)"

text \<open>The body of the discovery loop (lines 28 and 29) on a file name.\<close>

definition list_file :: "string \<Rightarrow> string list \<Rightarrow> string list" where
  "list_file n FL = (if n \<notin> set FL then FL @ [n] else FL)"

text \<open>\<open>old\<close> occurs in \<open>s\<close> at position \<open>i\<close>.\<close>

definition occurs_at :: "string \<Rightarrow> string \<Rightarrow> nat \<Rightarrow> bool" where
  "occurs_at old s i = (i + length old \<le> length s \<and> take (length old) (drop i s) = old)"

section \<open>Example inputs\<close>

text \<open>
  Two objects that share \<open>particle.template\<close> and \<open>run.something.template\<close>, one with
  a comma-appendable fragment that is empty, and one with the same key in two buckets.
\<close>

definition objA :: "unit domain_object" where
  "objA = \<lparr>templates =
     [\<lparr>filename = ''particle.template'',
       MainArgs = Some [(''a'', PyInt 1)],
       AppendableArgs = Some [(''Manipulators'', ''X'')],
       CommaAppendableArgs = None\<rparr>,
      \<lparr>filename = ''run.something.template'',
       MainArgs = None,
       AppendableArgs = None,
       CommaAppendableArgs = Some [(''List'', ''p'')]\<rparr>]\<rparr>"

definition objB :: "unit domain_object" where
  "objB = \<lparr>templates =
     [\<lparr>filename = ''species.template'',
       MainArgs = None,
       AppendableArgs = Some [],
       CommaAppendableArgs = None\<rparr>,
      \<lparr>filename = ''particle.template'',
       MainArgs = Some [(''a'', PyInt 2)],
       AppendableArgs = Some [(''Manipulators'', ''Y'')],
       CommaAppendableArgs = None\<rparr>,
      \<lparr>filename = ''run.something.template'',
       MainArgs = None,
       AppendableArgs = None,
       CommaAppendableArgs = Some [(''List'', ''q'')]\<rparr>]\<rparr>"

definition obj_empty_comma :: "unit domain_object" where
  "obj_empty_comma = \<lparr>templates =
     [\<lparr>filename = ''speciesInitialization.template'',
       MainArgs = None,
       AppendableArgs = None,
       CommaAppendableArgs = Some [(''CreateManipulate'', [])]\<rparr>]\<rparr>"

definition obj_clash :: "unit domain_object" where
  "obj_clash = \<lparr>templates =
     [\<lparr>filename = ''particle.template'',
       MainArgs = None,
       AppendableArgs = Some [(''K'', ''a'')],
       CommaAppendableArgs = Some [(''K'', ''b'')]\<rparr>]\<rparr>"

text \<open>
  Two template directories, one with a template for every name and one without
  \<open>run.something.template\<close>, a template engine that appends the keys of the context to
  the template text, and an empty disk.
\<close>

definition load_all :: "string \<Rightarrow> string option" where
  "load_all fname = Some (''<'' @ fname @ ''>'')"

definition load_some :: "string \<Rightarrow> string option" where
  "load_some fname =
     (if fname = ''run.something.template'' then None else Some (''<'' @ fname @ ''>''))"

definition render_keys :: "string \<Rightarrow> unit pyval dict \<Rightarrow> string" where
  "render_keys template args = template @ concat (map fst args)"

definition st0 :: pass_state where
  "st0 = \<lparr>disk = Map.empty, stdout = []\<rparr>"

text \<open>
  An environment for the constructor with two species, an electron species with every
  default, and a nitrogen ion species as in the example script.
\<close>

definition env0 :: "unit particle_env" where
  "env0 = \<lparr>StartPosition = map_of [(''Random'', ''<start random>''), (''Ordered'', ''<start ordered>'')],
           Manipulators = map_of [(''SetIonCharge'', ''<set charge>''), (''Temperature'', ''<add temperature>'')],
           speciesDefinition = map_of [(''electron'', ''<electron>''), (''ion'', ''<ion>'')],
           CreateDensity = ''<create density>'',
           SetIonCharge = ''<manipulate charge>'',
           densityProfile = map_of [(''Gaussian'', ''<gaussian>'')],
           speciesNumericalParam = ''<numerical>'',
           mako_render = (\<lambda>text params. text),
           table_element = (\<lambda>el. if el = Some ''Nitrogen'' then Inr ((), 7)
              else Inl (ValueError (''Element not found: '' @
                     (case el of Some e \<Rightarrow> e | None \<Rightarrow> ''None'')))),
           in_electron_masses = (\<lambda>x. x),
           format_float = (\<lambda>x. ''1.000000000000000e+00'')\<rparr>"

definition electron_args :: "unit particle_args" where
  "electron_args = \<lparr>species = ''electron'',
     initial_positions = None, typicalNppc = PyNone, density_profile = None,
     base_density = PyNone, relative_density = PyFloat (), element = None,
     initial_charge = PyInt 0, mass_ratio = PyFloat (), charge_ratio = PyInt (- 1),
     target_species = None, ionizer_polarization = PyStr ''Circ'',
     initial_temperature = PyNone, shape_order = 1, pusher = PyStr ''Boris'',
     current_deposition = PyStr ''Esirkepov''\<rparr>"

definition ion_args :: "unit particle_args" where
  "ion_args = electron_args\<lparr>species := ''ion'',
     initial_positions := Some (''Random'', PyInt 2), typicalNppc := PyInt 4,
     density_profile := Some [(''type'', PyStr ''Gaussian''), (''vacuumCellsY'', PyInt 100)],
     base_density := PyFloat (), element := Some ''Nitrogen'', initial_charge := PyInt 5,
     target_species := Some \<lparr>templates = [], name = ''Electrons''\<rparr>,
     ionizer_polarization := PyStr ''Lin''\<rparr>"

section \<open>Dictionaries, strings and the loops of the writer\<close>

lemma map_of_dict_set: "map_of (dict_set k v d) = (map_of d)(k \<mapsto> v)"
  by (induction d) (auto simp: fun_eq_iff)

lemma keys_dict_set: "set (dict_keys (dict_set k v d)) = insert k (set (dict_keys d))"
  by (induction d) (auto simp: dict_keys_def)

lemma dict_wf_dict_set: "dict_wf d \<Longrightarrow> dict_wf (dict_set k v d)"
proof (induction d)
  case Nil
  then show ?case by (simp add: dict_wf_def dict_keys_def)
next
  case (Cons p ps)
  have "set (map fst (dict_set k v ps)) = insert k (set (map fst ps))"
    using keys_dict_set [of k v ps] by (simp add: dict_keys_def)
  with Cons show ?case by (auto simp: dict_wf_def dict_keys_def)
qed

lemma map_of_dict_merge_gen:
  "map_of (fold (\<lambda>(k, v) acc. dict_set k v acc) b a) = map_of a ++ map_of (rev b)"
proof (induction b arbitrary: a)
  case Nil
  then show ?case by simp
next
  case (Cons p b)
  obtain k v where p: "p = (k, v)" by (cases p)
  show ?case
    by (simp add: p Cons map_of_dict_set fun_eq_iff map_add_def split: option.splits)
qed

lemma map_of_rev_distinct: "distinct (map fst xs) \<Longrightarrow> map_of (rev xs) = map_of xs"
proof (induction xs)
  case Nil
  then show ?case by simp
next
  case (Cons p xs)
  obtain k v where p: "p = (k, v)" by (cases p)
  from Cons.prems have notin: "map_of xs k = None"
    by (simp add: p map_of_eq_None_iff)
  have "map_of (rev (p # xs)) = map_of [(k, v)] ++ map_of (rev xs)"
    by (simp add: p map_of_append)
  also have "\<dots> = map_of [(k, v)] ++ map_of xs"
    using Cons by simp
  also have "\<dots> = map_of (p # xs)"
    using notin by (auto simp: p fun_eq_iff map_add_def split: option.splits)
  finally show ?case .
qed

lemma map_of_dict_merge:
  "dict_wf b \<Longrightarrow> map_of (dict_merge a b) = map_of a ++ map_of b"
  by (simp add: dict_merge_def map_of_dict_merge_gen dict_wf_def dict_keys_def map_of_rev_distinct)

lemma keys_dict_merge:
  "set (dict_keys (dict_merge a b)) = set (dict_keys a) \<union> set (dict_keys b)"
  unfolding dict_merge_def
proof (induction b arbitrary: a)
  case Nil
  then show ?case by (simp add: dict_keys_def)
next
  case (Cons p b)
  obtain k v where p: "p = (k, v)" by (cases p)
  show ?case using keys_dict_set [of k v a]
    by (simp add: p Cons) (auto simp: dict_keys_def)
qed

lemma str_split_nonempty: "str_split sep s \<noteq> []"
  by (induction s) (auto split: list.splits)

lemma hd_str_split: "hd (str_split sep s) = takeWhile (\<lambda>c. c \<noteq> sep) s"
  by (induction s) (auto split: list.splits simp: str_split_nonempty)

lemma map_of_append_fragment:
  "map_of (append_fragment arg v acc) = (map_of acc)(arg \<mapsto> list_of_key acc arg @ [v])"
proof (cases "arg \<in> set (dict_keys acc)")
  case True
  then show ?thesis by (simp add: append_fragment_def map_of_dict_set)
next
  case False
  then have "map_of acc arg = None"
    by (simp add: dict_keys_def map_of_eq_None_iff)
  with False show ?thesis
    by (simp add: append_fragment_def map_of_dict_set list_of_key_def)
qed

lemma dict_wf_append_fragment: "dict_wf acc \<Longrightarrow> dict_wf (append_fragment arg v acc)"
  by (simp add: append_fragment_def dict_wf_dict_set Let_def)

lemma list_of_key_append_fragment:
  "list_of_key (append_fragment arg v acc) K =
     (if K = arg then list_of_key acc arg @ [v] else list_of_key acc K)"
  by (simp add: list_of_key_def map_of_append_fragment)

lemma fold_fragments:
  assumes "distinct ks"
  shows "map_of (fold (\<lambda>arg acc. case map_of bucket arg of
                                    Some v \<Rightarrow> append_fragment arg v acc
                                  | None \<Rightarrow> acc) ks acc) K =
         (if K \<in> set ks
          then (case map_of bucket K of
                  None \<Rightarrow> map_of acc K
                | Some f \<Rightarrow> Some (list_of_key acc K @ [f]))
          else map_of acc K)"
  using assms
proof (induction ks arbitrary: acc)
  case Nil
  then show ?case by simp
next
  case (Cons k ks)
  show ?case
  proof (cases "map_of bucket k")
    case None
    with Cons show ?thesis by auto
  next
    case (Some v)
    with Cons show ?thesis
      by (auto simp: map_of_append_fragment list_of_key_append_fragment split: option.splits)
  qed
qed

lemma map_of_append_bucket:
  assumes "dict_wf bucket"
  shows "map_of (append_bucket bucket acc) K =
         (case map_of bucket K of
            None \<Rightarrow> map_of acc K
          | Some f \<Rightarrow> Some (list_of_key acc K @ [f]))"
proof -
  have "K \<notin> set (dict_keys bucket) \<Longrightarrow> map_of bucket K = None"
    by (simp add: dict_keys_def map_of_eq_None_iff)
  then show ?thesis
    using assms fold_fragments [of "dict_keys bucket" bucket acc K]
    by (auto simp: append_bucket_def dict_wf_def split: option.splits)
qed

lemma dict_wf_append_bucket_gen:
  "dict_wf acc \<Longrightarrow>
   dict_wf (fold (\<lambda>arg acc. case map_of bucket arg of
                               Some v \<Rightarrow> append_fragment arg v acc
                             | None \<Rightarrow> acc) ks acc)"
  by (induction ks arbitrary: acc) (auto simp: dict_wf_append_fragment split: option.splits)

lemma dict_wf_append_bucket: "dict_wf acc \<Longrightarrow> dict_wf (append_bucket bucket acc)"
  by (simp add: append_bucket_def dict_wf_append_bucket_gen)

lemma gather_template_split:
  "gather_template fname t (m, a, c) =
     (main_step fname t m, bucket_step AppendableArgs fname t a,
      bucket_step CommaAppendableArgs fname t c)"
  by (simp add: gather_template_def main_step_def bucket_step_def)

lemma fold_gather_template:
  "fold (gather_template fname) ts (m, a, c) =
     (fold (main_step fname) ts m, fold (bucket_step AppendableArgs fname) ts a,
      fold (bucket_step CommaAppendableArgs fname) ts c)"
  by (induction ts arbitrary: m a c) (simp_all add: gather_template_split)

lemma fold_templates_concat:
  "fold (\<lambda>obj b. fold f (templates obj) b) objs b0 = fold f (concat (map templates objs)) b0"
  by (induction objs arbitrary: b0) simp_all

lemma gather_args_concat:
  "gather_args objs fname =
     fold (gather_template fname) (concat (map templates objs)) ([], [], [])"
  by (simp add: gather_args_def fold_templates_concat)

lemma fragments_Nil: "fragments bucket [] K = []"
  by (simp add: fragments_def)

lemma fragments_Cons:
  "fragments bucket (t # ts) K =
     (case bucket t of
        None \<Rightarrow> []
      | Some d \<Rightarrow> (case map_of d K of None \<Rightarrow> [] | Some f \<Rightarrow> [f])) @ fragments bucket ts K"
  by (simp add: fragments_def)

lemma fragments_append:
  "fragments bucket (ts @ us) K = fragments bucket ts K @ fragments bucket us K"
  by (simp add: fragments_def)

lemma list_of_key_append_bucket:
  "dict_wf d \<Longrightarrow>
   list_of_key (append_bucket d acc) K =
     (case map_of d K of None \<Rightarrow> list_of_key acc K | Some f \<Rightarrow> list_of_key acc K @ [f])"
  by (simp add: list_of_key_def map_of_append_bucket split: option.splits)

lemma bucket_step_other: "filename t \<noteq> fname \<Longrightarrow> bucket_step bucket fname t acc = acc"
  by (simp add: bucket_step_def)

lemma bucket_step_None: "bucket t = None \<Longrightarrow> bucket_step bucket fname t acc = acc"
  by (simp add: bucket_step_def)

lemma bucket_step_Some:
  "filename t = fname \<Longrightarrow> bucket t = Some d \<Longrightarrow>
   bucket_step bucket fname t acc = append_bucket d acc"
  by (simp add: bucket_step_def)

lemma fold_bucket_step:
  assumes "list_all (\<lambda>t. wf_bucket (bucket t)) ts"
  shows "map_of (fold (bucket_step bucket fname) ts acc) K =
         (if fragments bucket (filter (\<lambda>t. filename t = fname) ts) K = [] then map_of acc K
          else Some (list_of_key acc K @
                     fragments bucket (filter (\<lambda>t. filename t = fname) ts) K))"
  using assms
proof (induction ts arbitrary: acc)
  case Nil
  then show ?case by (simp add: fragments_Nil)
next
  case (Cons t ts)
  let ?F = "fragments bucket (filter (\<lambda>t. filename t = fname) ts) K"
  from Cons.prems have wfs: "list_all (\<lambda>t. wf_bucket (bucket t)) ts" by simp
  note IH = Cons.IH [OF wfs]
  show ?case
  proof (cases "filename t = fname")
    case False
    then show ?thesis by (simp add: bucket_step_other IH)
  next
    case True
    show ?thesis
    proof (cases "bucket t")
      case None
      with True show ?thesis by (simp add: bucket_step_None IH fragments_Cons)
    next
      case (Some d)
      with Cons.prems have wf: "dict_wf d" by (simp add: wf_bucket_def)
      have step: "fold (bucket_step bucket fname) (t # ts) acc =
                  fold (bucket_step bucket fname) ts (append_bucket d acc)"
        using True Some by (simp add: bucket_step_Some)
      have unfolded: "map_of (fold (bucket_step bucket fname) (t # ts) acc) K =
                      (if ?F = [] then map_of (append_bucket d acc) K
                       else Some (list_of_key (append_bucket d acc) K @ ?F))"
        by (simp only: step IH)
      show ?thesis
      proof (cases "map_of d K")
        case None
        then have frag: "fragments bucket (filter (\<lambda>t. filename t = fname) (t # ts)) K = ?F"
          using True Some by (simp add: fragments_Cons)
        have "map_of (append_bucket d acc) K = map_of acc K"
          using None wf by (simp add: map_of_append_bucket)
        moreover have "list_of_key (append_bucket d acc) K = list_of_key acc K"
          using None wf by (simp add: list_of_key_append_bucket)
        ultimately show ?thesis by (simp only: unfolded frag)
      next
        case (Some f)
        then have frag: "fragments bucket (filter (\<lambda>t. filename t = fname) (t # ts)) K = f # ?F"
          using True \<open>bucket t = Some d\<close> by (simp add: fragments_Cons)
        have m: "map_of (append_bucket d acc) K = Some (list_of_key acc K @ [f])"
          using Some wf by (simp add: map_of_append_bucket)
        have l: "list_of_key (append_bucket d acc) K = list_of_key acc K @ [f]"
          using Some wf by (simp add: list_of_key_append_bucket)
        have "map_of (fold (bucket_step bucket fname) (t # ts) acc) K =
              Some (list_of_key acc K @ f # ?F)"
          by (simp only: unfolded m l) simp
        then show ?thesis by (simp only: frag) simp
      qed
    qed
  qed
qed

lemma dict_wf_bucket_step: "dict_wf acc \<Longrightarrow> dict_wf (bucket_step bucket fname t acc)"
  by (simp add: bucket_step_def dict_wf_append_bucket split: option.splits)

lemma dict_wf_fold_bucket_step:
  "dict_wf acc \<Longrightarrow> dict_wf (fold (bucket_step bucket fname) ts acc)"
  by (induction ts arbitrary: acc) (simp_all add: dict_wf_bucket_step)

lemma fold_main_step:
  "fold (main_step fname) ts m =
     (if filter (\<lambda>t. MainArgs t \<noteq> None) (filter (\<lambda>t. filename t = fname) ts) = [] then m
      else (case MainArgs (last (filter (\<lambda>t. MainArgs t \<noteq> None)
                                   (filter (\<lambda>t. filename t = fname) ts))) of
              Some d \<Rightarrow> d
            | None \<Rightarrow> m))"
proof (induction ts rule: rev_induct)
  case Nil
  then show ?case by simp
next
  case (snoc t ts)
  let ?C = "filter (\<lambda>t. MainArgs t \<noteq> None) (filter (\<lambda>t. filename t = fname) ts)"
  have step: "fold (main_step fname) (ts @ [t]) m = main_step fname t (fold (main_step fname) ts m)"
    by simp
  show ?case
  proof (cases "filename t = fname \<and> MainArgs t \<noteq> None")
    case False
    then have "main_step fname t x = x" for x
      by (auto simp: main_step_def)
    moreover have "filter (\<lambda>t. MainArgs t \<noteq> None) (filter (\<lambda>t. filename t = fname) (ts @ [t])) = ?C"
      using False by auto
    ultimately show ?thesis by (simp only: step snoc.IH)
  next
    case True
    then obtain d where d: "MainArgs t = Some d" by auto
    with True have ms: "main_step fname t x = d" for x
      by (simp add: main_step_def)
    have eqC: "filter (\<lambda>t. MainArgs t \<noteq> None) (filter (\<lambda>t. filename t = fname) (ts @ [t])) = ?C @ [t]"
      using True by auto
    show ?thesis
      by (simp only: step ms eqC) (simp add: d)
  qed
qed

lemma first_seen_filter: "first_seen (filter P xs) = filter P (first_seen xs)"
proof (induction xs)
  case Nil
  then show ?case by simp
next
  case (Cons x xs)
  show ?case
  proof (cases "P x")
    case True
    then show ?thesis by (simp add: Cons) (metis (mono_tags, lifting) filter_cong)
  next
    case False
    have "filter P (filter (\<lambda>y. y \<noteq> x) (first_seen xs)) = filter P (first_seen xs)"
      using False by (auto intro: filter_cong)
    with False show ?thesis by (simp add: Cons)
  qed
qed

lemma set_first_seen: "set (first_seen xs) = set xs"
  by (induction xs) auto

lemma distinct_first_seen: "distinct (first_seen xs)"
  by (induction xs) (auto simp: set_first_seen)

lemma fold_list_file:
  "fold list_file ns acc = acc @ first_seen (filter (\<lambda>n. n \<notin> set acc) ns)"
proof (induction ns arbitrary: acc)
  case Nil
  then show ?case by simp
next
  case (Cons n ns)
  show ?case
  proof (cases "n \<in> set acc")
    case True
    then have "list_file n acc = acc" by (simp add: list_file_def)
    with True show ?thesis by (simp add: Cons)
  next
    case False
    then have lf: "list_file n acc = acc @ [n]" by (simp add: list_file_def)
    have "filter (\<lambda>m. m \<notin> set (acc @ [n])) ns = filter (\<lambda>y. y \<noteq> n) (filter (\<lambda>m. m \<notin> set acc) ns)"
      by (auto intro: filter_cong)
    then have "fold list_file ns (acc @ [n]) =
               acc @ n # filter (\<lambda>y. y \<noteq> n) (first_seen (filter (\<lambda>m. m \<notin> set acc) ns))"
      by (simp only: Cons first_seen_filter) simp
    with False lf show ?thesis by simp
  qed
qed

lemma FilesList_fold:
  "FilesList objs = fold list_file (map filename (concat (map templates objs))) []"
proof -
  have inner: "fold (\<lambda>t FL. if filename t \<notin> set FL then FL @ [filename t] else FL) ts FL =
               fold list_file (map filename ts) FL" for ts :: "'a template list" and FL
    by (induction ts arbitrary: FL) (simp_all add: list_file_def)
  have "fold (\<lambda>obj FL. fold list_file (map filename (templates obj)) FL) os FL =
        fold list_file (map filename (concat (map templates os))) FL"
    for os :: "('a, 'b) domain_object_scheme list" and FL
    by (induction os arbitrary: FL) simp_all
  then show ?thesis by (simp add: FilesList_def inner)
qed

lemma FilesList_first_seen:
  "FilesList objs = first_seen (map filename (concat (map templates objs)))"
  by (simp add: FilesList_fold fold_list_file)

lemma render_files_all:
  assumes "\<forall>f \<in> set fs. load f \<noteq> None"
  shows "render_files load rd objs fs st =
         (fold (\<lambda>f s. write_file rd objs f (the (load f)) s) fs st, None)"
  using assms by (induction fs arbitrary: st) auto

lemma render_files_abort:
  assumes "\<forall>g \<in> set pre. load g \<noteq> None" and "load f = None"
  shows "render_files load rd objs (pre @ f # post) st =
         (fst (render_files load rd objs pre st), Some (TemplateNotFound f))"
  using assms by (induction pre arbitrary: st) auto

lemma stdout_fold_write:
  "stdout (fold (\<lambda>f s. write_file rd objs f (tpl f) s) fs st) = stdout st @ map filename_dest fs"
  by (induction fs arbitrary: st) (simp_all add: write_file_def Let_def)

lemma disk_fold_write:
  "disk (fold (\<lambda>f s. write_file rd objs f (tpl f) s) fs st) =
   fold (\<lambda>f d. d(dest_path f \<mapsto> rd (tpl f) (templateArgs objs f))) fs (disk st)"
  by (induction fs arbitrary: st) (simp_all add: write_file_def Let_def)

lemma gather_args_components:
  "gather_args objs fname =
     (fold (main_step fname) (concat (map templates objs)) [],
      fold (bucket_step AppendableArgs fname) (concat (map templates objs)) [],
      fold (bucket_step CommaAppendableArgs fname) (concat (map templates objs)) [])"
  by (simp add: gather_args_concat fold_gather_template)

lemma wf_objects_appendable:
  "wf_objects objs \<Longrightarrow> list_all (\<lambda>t. wf_bucket (AppendableArgs t)) (concat (map templates objs))"
  by (induction objs) (auto simp: wf_objects_def wf_template_def list_all_iff)

lemma wf_objects_comma:
  "wf_objects objs \<Longrightarrow>
   list_all (\<lambda>t. wf_bucket (CommaAppendableArgs t)) (concat (map templates objs))"
  by (induction objs) (auto simp: wf_objects_def wf_template_def list_all_iff)

lemma appendable_lists:
  assumes "wf_objects objs"
  shows "map_of (fst (snd (gather_args objs fname))) K =
         (if fragments AppendableArgs (contributions objs fname) K = [] then None
          else Some (fragments AppendableArgs (contributions objs fname) K))"
  using fold_bucket_step [OF wf_objects_appendable [OF assms], of fname "[]" K]
  by (simp add: gather_args_components contributions_def list_of_key_def)

lemma comma_lists:
  assumes "wf_objects objs"
  shows "map_of (snd (snd (gather_args objs fname))) K =
         (if fragments CommaAppendableArgs (contributions objs fname) K = [] then None
          else Some (fragments CommaAppendableArgs (contributions objs fname) K))"
  using fold_bucket_step [OF wf_objects_comma [OF assms], of fname "[]" K]
  by (simp add: gather_args_components contributions_def list_of_key_def)

lemma map_of_join_appendable:
  "map_of (join_appendable acc) K =
     map_option (\<lambda>fs. PyStr (join ''\<newline>'' fs)) (map_of acc K)"
  by (simp add: join_appendable_def map_of_map)

lemma map_of_join_comma:
  "map_of (join_comma acc) K =
     map_option (\<lambda>fs. if length fs > 0 then PyStr (join '',\<newline>'' fs)
                       else PyList (map PyStr fs)) (map_of acc K)"
  by (simp add: join_comma_def map_of_map)

lemma keys_join_appendable: "dict_keys (join_appendable acc) = dict_keys acc"
  by (simp add: join_appendable_def dict_keys_def case_prod_beta comp_def)

lemma keys_join_comma: "dict_keys (join_comma acc) = dict_keys acc"
  by (simp add: join_comma_def dict_keys_def case_prod_beta comp_def)

lemma dict_wf_Nil: "dict_wf []"
  by (simp add: dict_wf_def dict_keys_def)

lemma dict_wf_templateAppendableArgs: "dict_wf (templateAppendableArgs objs fname)"
proof -
  have "dict_wf (fold (bucket_step AppendableArgs fname) (concat (map templates objs)) [])"
    by (rule dict_wf_fold_bucket_step [OF dict_wf_Nil])
  then show ?thesis
    by (simp add: templateAppendableArgs_def gather_args_components dict_wf_def
        keys_join_appendable)
qed

lemma dict_wf_templateCommaAppendableArgs: "dict_wf (templateCommaAppendableArgs objs fname)"
proof -
  have "dict_wf (fold (bucket_step CommaAppendableArgs fname) (concat (map templates objs)) [])"
    by (rule dict_wf_fold_bucket_step [OF dict_wf_Nil])
  then show ?thesis
    by (simp add: templateCommaAppendableArgs_def gather_args_components dict_wf_def
        keys_join_comma)
qed

lemma templateArgs_lookup:
  "map_of (templateArgs objs fname) K =
     (case map_of (templateCommaAppendableArgs objs fname) K of
        Some v \<Rightarrow> Some v
      | None \<Rightarrow> (case map_of (templateAppendableArgs objs fname) K of
                   Some v \<Rightarrow> Some v
                 | None \<Rightarrow> map_of (templateMainArgs objs fname) K))"
  by (simp add: templateArgs_def map_of_dict_merge dict_wf_templateAppendableArgs
      dict_wf_templateCommaAppendableArgs map_add_def split: option.splits)

lemma templateArgs_keys:
  "set (dict_keys (templateArgs objs fname)) =
     set (dict_keys (templateMainArgs objs fname)) \<union>
     set (dict_keys (templateAppendableArgs objs fname)) \<union>
     set (dict_keys (templateCommaAppendableArgs objs fname))"
  by (simp add: templateArgs_def keys_dict_merge)

lemma appendable_lookup:
  assumes "wf_objects objs"
  shows "map_of (templateAppendableArgs objs fname) K =
         (if fragments AppendableArgs (contributions objs fname) K = [] then None
          else Some (PyStr (join ''\<newline>'' (fragments AppendableArgs (contributions objs fname) K))))"
  by (simp add: templateAppendableArgs_def map_of_join_appendable appendable_lists [OF assms])

lemma comma_lookup:
  assumes "wf_objects objs"
  shows "map_of (templateCommaAppendableArgs objs fname) K =
         (if fragments CommaAppendableArgs (contributions objs fname) K = [] then None
          else Some (PyStr (join '',\<newline>''
                 (fragments CommaAppendableArgs (contributions objs fname) K))))"
  by (simp add: templateCommaAppendableArgs_def map_of_join_comma comma_lists [OF assms])

lemma main_lookup:
  "templateMainArgs objs fname =
     (if filter (\<lambda>t. MainArgs t \<noteq> None) (contributions objs fname) = [] then []
      else (case MainArgs (last (filter (\<lambda>t. MainArgs t \<noteq> None) (contributions objs fname))) of
              Some d \<Rightarrow> d
            | None \<Rightarrow> []))"
  by (simp add: templateMainArgs_def gather_args_components fold_main_step contributions_def)

lemma str_replace_from_absent:
  assumes "\<forall>i. \<not> occurs_at old s i"
  shows "str_replace_from old new s = s"
  using assms
proof (induction s)
  case Nil
  then show ?case by simp
next
  case (Cons c cs)
  have no0: "\<not> occurs_at old (c # cs) 0" using Cons.prems by blast
  have "\<not> occurs_at old cs i" for i
    using Cons.prems [rule_format, of "Suc i"] by (simp add: occurs_at_def)
  then have IH: "str_replace_from old new cs = cs" using Cons.IH by blast
  have "take (length old) (c # cs) \<noteq> old \<or> old = []"
  proof (rule ccontr)
    assume "\<not> (take (length old) (c # cs) \<noteq> old \<or> old = [])"
    then have t: "take (length old) (c # cs) = old" by simp
    have "length (take (length old) (c # cs)) \<le> length (c # cs)" by simp
    then have "length old \<le> length (c # cs)" by (simp only: t)
    with t no0 show False by (simp add: occurs_at_def)
  qed
  then show ?case using IH by auto
qed

lemma str_replace_from_first:
  assumes "old \<noteq> []" and "\<forall>i < length a. \<not> occurs_at old (a @ old @ b) i"
  shows "str_replace_from old new (a @ old @ b) = a @ new @ str_replace_from old new b"
  using assms(2)
proof (induction a)
  case Nil
  obtain c cs where old: "old = c # cs" using assms(1) by (cases old) auto
  have "str_replace_from old new (old @ b) = new @ str_replace_from old new b"
    by (simp add: old)
  then show ?case by simp
next
  case (Cons x a)
  have no0: "\<not> occurs_at old ((x # a) @ old @ b) 0" using Cons.prems by auto
  have len: "length old \<le> length ((x # a) @ old @ b)" by simp
  from no0 len have ne: "take (length old) (x # a @ old @ b) \<noteq> old"
    by (simp add: occurs_at_def)
  have "\<forall>i < length a. \<not> occurs_at old (a @ old @ b) i"
  proof (intro allI impI)
    fix i assume "i < length a"
    then have "\<not> occurs_at old ((x # a) @ old @ b) (Suc i)" using Cons.prems by auto
    then show "\<not> occurs_at old (a @ old @ b) i" by (simp add: occurs_at_def)
  qed
  then have "str_replace_from old new (a @ old @ b) = a @ new @ str_replace_from old new b"
    by (rule Cons.IH)
  with ne show ?case by simp
qed

lemma filename_dest_examples:
  "filename_dest ''run.something.template'' = ''run.something.cfg''"
  "dest_path ''run.something.template'' = ''./etc/picongpu/run.something.cfg''"
  "filename_dest ''species.template'' = ''species.param''"
  "dest_path ''species.template'' = ''./include/picongpu/param/species.param''"
  by (simp_all add: filename_dest_def dest_path_def str_replace_def path_etc_def path_include_def)

section \<open>The claims about the writer\<close>

lemmas eval_defs =
  gather_args_def gather_template_def append_bucket_def append_fragment_def
  list_of_key_def dict_keys_def join_appendable_def join_comma_def dict_merge_def
  templateArgs_def templateMainArgs_def templateAppendableArgs_def
  templateCommaAppendableArgs_def contributions_def fragments_def
  wf_objects_def wf_template_def wf_bucket_def dict_wf_def

text \<open>
  C1, as the code has it. The writer never removes a key. A key \<open>K\<close> is bound by the
  comma-appendable bucket exactly when some contribution to the file supplies \<open>K\<close> there,
  and the render context then binds \<open>K\<close> to the fragments joined with a comma and a
  newline, also when that string is empty. When no contribution supplies \<open>K\<close>, the
  comma-appendable bucket does not bind it, and the render context has for \<open>K\<close> what the
  appendable and main buckets give.
\<close>

theorem comma_key_bound_iff_supplied:
  assumes "wf_objects objs"
  shows "(fragments CommaAppendableArgs (contributions objs fname) K = [] \<longrightarrow>
            map_of (templateCommaAppendableArgs objs fname) K = None \<and>
            map_of (templateArgs objs fname) K =
              (case map_of (templateAppendableArgs objs fname) K of
                 Some v \<Rightarrow> Some v
               | None \<Rightarrow> map_of (templateMainArgs objs fname) K)) \<and>
         (fragments CommaAppendableArgs (contributions objs fname) K \<noteq> [] \<longrightarrow>
            map_of (templateArgs objs fname) K =
              Some (PyStr (join '',\<newline>''
                (fragments CommaAppendableArgs (contributions objs fname) K))))"
  by (simp add: templateArgs_lookup comma_lookup [OF assms])

theorem comma_key_bound_iff_supplied_witness:
  "wf_objects [objA, objB] \<and>
   fragments CommaAppendableArgs (contributions [objA, objB] ''run.something.template'') ''List''
     = [''p'', ''q''] \<and>
   map_of (templateArgs [objA, objB] ''run.something.template'') ''List''
     = Some (PyStr ''p,\<newline>q'') \<and>
   fragments CommaAppendableArgs (contributions [objA, objB] ''particle.template'') ''List'' = [] \<and>
   map_of (templateCommaAppendableArgs [objA, objB] ''particle.template'') ''List'' = None"
proof -
  have wf: "wf_objects [objA, objB]"
    by (simp add: objA_def objB_def wf_objects_def wf_template_def wf_bucket_def dict_wf_def
        dict_keys_def)
  have f1: "fragments CommaAppendableArgs (contributions [objA, objB] ''run.something.template'')
              ''List'' = [''p'', ''q'']"
    by (simp add: objA_def objB_def fragments_def contributions_def)
  have f2: "fragments CommaAppendableArgs (contributions [objA, objB] ''particle.template'')
              ''List'' = []"
    by (simp add: objA_def objB_def fragments_def contributions_def)
  show ?thesis
    using comma_key_bound_iff_supplied [OF wf, of "''run.something.template''" "''List''"]
      comma_key_bound_iff_supplied [OF wf, of "''particle.template''" "''List''"]
    by (simp add: wf f1 f2)
qed

text \<open>
  C1 as stated fails: one contribution whose comma-appendable fragment for
  \<open>CreateManipulate\<close> is the empty string. The joined result is empty, and the key is in
  the render context, bound to the empty string.
\<close>

theorem comma_empty_key_kept_counterexample:
  "join '',\<newline>'' (fragments CommaAppendableArgs
      (contributions [obj_empty_comma] ''speciesInitialization.template'') ''CreateManipulate'') = [] \<and>
   ''CreateManipulate'' \<in> set (dict_keys
      (templateArgs [obj_empty_comma] ''speciesInitialization.template'')) \<and>
   templateArgs [obj_empty_comma] ''speciesInitialization.template''
     = [(''CreateManipulate'', PyStr [])]"
  by (simp add: eval_defs obj_empty_comma_def)

text \<open>
  C2, as the code has it. For an appendable key \<open>K\<close> that some contribution to the file
  supplies, the merged appendable bucket binds \<open>K\<close> to the fragments in contributor
  order, joined by one newline; the render context binds \<open>K\<close> to the same string when no
  contribution to the file supplies \<open>K\<close> as a comma-appendable key.
\<close>

theorem appendable_fragments_joined:
  assumes "wf_objects objs"
    and "fragments AppendableArgs (contributions objs fname) K \<noteq> []"
  shows "map_of (templateAppendableArgs objs fname) K =
           Some (PyStr (join ''\<newline>'' (fragments AppendableArgs (contributions objs fname) K))) \<and>
         (fragments CommaAppendableArgs (contributions objs fname) K = [] \<longrightarrow>
            map_of (templateArgs objs fname) K =
              Some (PyStr (join ''\<newline>''
                (fragments AppendableArgs (contributions objs fname) K))))"
  using assms(2)
  by (simp add: templateArgs_lookup comma_lookup [OF assms(1)] appendable_lookup [OF assms(1)])

theorem appendable_fragments_joined_witness:
  "wf_objects [objA, objB] \<and>
   fragments AppendableArgs (contributions [objA, objB] ''particle.template'') ''Manipulators''
     = [''X'', ''Y''] \<and>
   fragments CommaAppendableArgs (contributions [objA, objB] ''particle.template'')
     ''Manipulators'' = [] \<and>
   map_of (templateArgs [objA, objB] ''particle.template'') ''Manipulators''
     = Some (PyStr ''X\<newline>Y'')"
proof -
  have wf: "wf_objects [objA, objB]"
    by (simp add: objA_def objB_def wf_objects_def wf_template_def wf_bucket_def dict_wf_def
        dict_keys_def)
  have f1: "fragments AppendableArgs (contributions [objA, objB] ''particle.template'')
              ''Manipulators'' = [''X'', ''Y'']"
    by (simp add: objA_def objB_def fragments_def contributions_def)
  have f2: "fragments CommaAppendableArgs (contributions [objA, objB] ''particle.template'')
              ''Manipulators'' = []"
    by (simp add: objA_def objB_def fragments_def contributions_def)
  show ?thesis
    using appendable_fragments_joined [OF wf, of "''particle.template''" "''Manipulators''"]
    by (simp add: wf f1 f2)
qed

text \<open>
  C2 as stated fails when a contribution supplies the key in both appendable buckets:
  the render context has the comma-appendable value.
\<close>

theorem appendable_shadowed_counterexample:
  "wf_objects [obj_clash] \<and>
   fragments AppendableArgs (contributions [obj_clash] ''particle.template'') ''K'' = [''a''] \<and>
   map_of (templateArgs [obj_clash] ''particle.template'') ''K'' = Some (PyStr ''b'') \<and>
   map_of (templateArgs [obj_clash] ''particle.template'') ''K''
     \<noteq> Some (PyStr (join ''\<newline>''
          (fragments AppendableArgs (contributions [obj_clash] ''particle.template'') ''K'')))"
  by (simp add: eval_defs obj_clash_def)

text \<open>
  C3. When contributions to a file carry \<open>MainArgs\<close>, the accumulated main-args
  dictionary is the \<open>MainArgs\<close> of the last of them in object order.
\<close>

theorem main_args_last_wins:
  assumes "filter (\<lambda>t. MainArgs t \<noteq> None) (contributions objs fname) \<noteq> []"
  shows "MainArgs (last (filter (\<lambda>t. MainArgs t \<noteq> None) (contributions objs fname))) =
           Some (templateMainArgs objs fname)"
proof -
  let ?C = "filter (\<lambda>t. MainArgs t \<noteq> None) (contributions objs fname)"
  from assms have "last ?C \<in> set ?C" by (rule last_in_set)
  then obtain d where "MainArgs (last ?C) = Some d" by auto
  with assms show ?thesis by (simp add: main_lookup)
qed

theorem main_args_last_wins_witness:
  "filter (\<lambda>t. MainArgs t \<noteq> None) (contributions [objA, objB] ''particle.template'') \<noteq> [] \<and>
   map (\<lambda>t. MainArgs t) (contributions [objA, objB] ''particle.template'')
     = [Some [(''a'', PyInt 1)], Some [(''a'', PyInt 2)]] \<and>
   templateMainArgs [objA, objB] ''particle.template'' = [(''a'', PyInt 2)]"
proof -
  have ne: "filter (\<lambda>t. MainArgs t \<noteq> None) (contributions [objA, objB] ''particle.template'') \<noteq> []"
    by (simp add: objA_def objB_def contributions_def)
  show ?thesis
    using main_args_last_wins [OF ne]
    by (simp add: objA_def objB_def contributions_def)
qed

text \<open>
  C4. When every discovered target file has a template, the pass ends without an error;
  the files it processes are the distinct \<open>filename\<close> values of all contributions of all
  objects, each once, in the order in which they are first seen across the objects: one
  line is printed and one file written for each, in that order.
\<close>

theorem files_written_once_in_first_seen_order:
  assumes "\<forall>f \<in> set (FilesList objs). load f \<noteq> None"
  shows "set (FilesList objs) = filename ` (\<Union>obj \<in> set objs. set (templates obj)) \<and>
         distinct (FilesList objs) \<and>
         FilesList objs = first_seen (map filename (concat (map templates objs))) \<and>
         (\<exists>st'. WriteSimulationFiles load rd objs st = (st', None) \<and>
            stdout st' = stdout st @ map filename_dest (FilesList objs) \<and>
            disk st' = fold (\<lambda>f d. d(dest_path f \<mapsto> rd (the (load f)) (templateArgs objs f)))
                         (FilesList objs) (disk st))"
proof -
  have "set (FilesList objs) = filename ` (\<Union>obj \<in> set objs. set (templates obj))"
    by (auto simp: FilesList_first_seen set_first_seen)
  moreover have "distinct (FilesList objs)"
    by (simp add: FilesList_first_seen distinct_first_seen)
  moreover have "WriteSimulationFiles load rd objs st =
      (fold (\<lambda>f s. write_file rd objs f (the (load f)) s) (FilesList objs) st, None)"
    unfolding WriteSimulationFiles_def by (rule render_files_all [OF assms])
  ultimately show ?thesis
    by (simp add: FilesList_first_seen [symmetric] stdout_fold_write disk_fold_write)
qed

theorem files_written_once_in_first_seen_order_witness:
  "list_all (\<lambda>f. load_all f \<noteq> None) (FilesList [objA, objB]) \<and>
   FilesList [objA, objB] =
     [''particle.template'', ''run.something.template'', ''species.template''] \<and>
   snd (WriteSimulationFiles load_all render_keys [objA, objB] st0) = None \<and>
   stdout (fst (WriteSimulationFiles load_all render_keys [objA, objB] st0)) =
     [''particle.param'', ''run.something.cfg'', ''species.param'']"
proof -
  have h: "\<forall>f \<in> set (FilesList [objA, objB]). load_all f \<noteq> None"
    by (simp add: load_all_def)
  have fl: "FilesList [objA, objB] =
     [''particle.template'', ''run.something.template'', ''species.template'']"
    by (simp add: FilesList_def objA_def objB_def)
  have fd: "map filename_dest [''particle.template'', ''run.something.template'', ''species.template'']
     = [''particle.param'', ''run.something.cfg'', ''species.param'']"
    by (simp add: filename_dest_def str_replace_def)
  from files_written_once_in_first_seen_order [OF h, of render_keys st0]
  obtain st' where w: "WriteSimulationFiles load_all render_keys [objA, objB] st0 = (st', None)"
    and so: "stdout st' = stdout st0 @ map filename_dest (FilesList [objA, objB])"
    by blast
  have "stdout st0 = []" by (simp add: st0_def)
  with so have "stdout st' = [''particle.param'', ''run.something.cfg'', ''species.param'']"
    by (simp only: fl fd append_Nil)
  with w h fl show ?thesis by (simp add: list_all_iff)
qed

text \<open>
  C5. A target file whose first dot-separated segment is \<open>run\<close> goes to the
  run-configuration directory under its name with \<open>template\<close> replaced by \<open>cfg\<close>; every
  other file goes to the parameter directory under its name with \<open>template\<close> replaced by
  \<open>param\<close>. The first segment is the text before the first dot; the replacement leaves a
  name without \<open>template\<close> as it is and replaces the leftmost occurrence first.
\<close>

theorem destination_by_first_segment:
  "(hd (str_split CHR ''.'' fname) = ''run'' \<longrightarrow>
      filename_dest fname = str_replace fname ''template'' ''cfg'' \<and>
      dest_path fname = path_etc @ filename_dest fname) \<and>
   (hd (str_split CHR ''.'' fname) \<noteq> ''run'' \<longrightarrow>
      filename_dest fname = str_replace fname ''template'' ''param'' \<and>
      dest_path fname = path_include @ filename_dest fname) \<and>
   hd (str_split CHR ''.'' fname) = takeWhile (\<lambda>c. c \<noteq> CHR ''.'') fname \<and>
   disk (write_file rd objs fname template st) =
     (disk st)(dest_path fname \<mapsto> rd template (templateArgs objs fname)) \<and>
   stdout (write_file rd objs fname template st) = stdout st @ [filename_dest fname] \<and>
   ((\<forall>i. \<not> occurs_at ''template'' fname i) \<longrightarrow> filename_dest fname = fname) \<and>
   (\<forall>a b new. fname = a @ ''template'' @ b \<and>
      (\<forall>i < length a. \<not> occurs_at ''template'' fname i) \<longrightarrow>
      str_replace fname ''template'' new = a @ new @ str_replace b ''template'' new) \<and>
   filename_dest ''run.something.template'' = ''run.something.cfg'' \<and>
   dest_path ''run.something.template'' = ''./etc/picongpu/run.something.cfg'' \<and>
   filename_dest ''species.template'' = ''species.param'' \<and>
   dest_path ''species.template'' = ''./include/picongpu/param/species.param''"
proof -
  have absent: "(\<forall>i. \<not> occurs_at ''template'' fname i) \<longrightarrow> filename_dest fname = fname"
    by (simp add: filename_dest_def str_replace_def str_replace_from_absent)
  have first: "\<forall>a b new. fname = a @ ''template'' @ b \<and>
      (\<forall>i < length a. \<not> occurs_at ''template'' fname i) \<longrightarrow>
      str_replace fname ''template'' new = a @ new @ str_replace b ''template'' new"
  proof (intro allI impI)
    fix a b new
    assume h: "fname = a @ ''template'' @ b \<and>
      (\<forall>i < length a. \<not> occurs_at ''template'' fname i)"
    then have eq: "fname = a @ ''template'' @ b"
      and no: "\<forall>i < length a. \<not> occurs_at ''template'' fname i" by blast+
    from no have "\<forall>i < length a. \<not> occurs_at ''template'' (a @ ''template'' @ b) i"
      unfolding eq .
    then have "str_replace_from ''template'' new (a @ ''template'' @ b) =
               a @ new @ str_replace_from ''template'' new b"
      by (intro str_replace_from_first) simp_all
    then show "str_replace fname ''template'' new = a @ new @ str_replace b ''template'' new"
      unfolding eq by (simp add: str_replace_def del: str_replace_from.simps)
  qed
  have rest: "(hd (str_split CHR ''.'' fname) = ''run'' \<longrightarrow>
      filename_dest fname = str_replace fname ''template'' ''cfg'' \<and>
      dest_path fname = path_etc @ filename_dest fname) \<and>
   (hd (str_split CHR ''.'' fname) \<noteq> ''run'' \<longrightarrow>
      filename_dest fname = str_replace fname ''template'' ''param'' \<and>
      dest_path fname = path_include @ filename_dest fname) \<and>
   hd (str_split CHR ''.'' fname) = takeWhile (\<lambda>c. c \<noteq> CHR ''.'') fname \<and>
   disk (write_file rd objs fname template st) =
     (disk st)(dest_path fname \<mapsto> rd template (templateArgs objs fname)) \<and>
   stdout (write_file rd objs fname template st) = stdout st @ [filename_dest fname]"
    by (simp add: filename_dest_def dest_path_def write_file_def Let_def hd_str_split)
  from rest absent first show ?thesis
    by (simp only: filename_dest_examples) simp
qed

theorem destination_by_first_segment_witness:
  "hd (str_split CHR ''.'' ''run.something.template'') = ''run'' \<and>
   dest_path ''run.something.template'' = ''./etc/picongpu/'' @ ''run.something.cfg'' \<and>
   hd (str_split CHR ''.'' ''species.template'') \<noteq> ''run'' \<and>
   dest_path ''species.template'' = ''./include/picongpu/param/'' @ ''species.param'' \<and>
   list_all (\<lambda>i. \<not> occurs_at ''template'' ''run.something.template'' i) [0..<14] \<and>
   str_replace ''run.something.template'' ''template'' ''cfg'' = ''run.something.'' @ ''cfg'' \<and>
   (\<forall>i. \<not> occurs_at ''template'' ''runs.cfg'' i) \<and>
   filename_dest ''runs.cfg'' = ''runs.cfg''"
proof -
  have occ': "list_all (\<lambda>i. \<not> occurs_at ''template'' ''run.something.template'' i) [0..<14]"
    by code_simp
  have len: "length ''run.something.'' = 14" by simp
  have occ: "\<forall>i < length ''run.something.''. \<not> occurs_at ''template'' ''run.something.template'' i"
    using occ' unfolding len list_all_iff by simp
  have none: "\<forall>i. \<not> occurs_at ''template'' ''runs.cfg'' i"
  proof
    fix i
    show "\<not> occurs_at ''template'' ''runs.cfg'' i"
      by (cases i) (simp_all add: occurs_at_def)
  qed
  have split: "''run.something.template'' = ''run.something.'' @ ''template'' @ []" by simp
  from destination_by_first_segment [where fname = "''run.something.template''", THEN conjunct2, THEN conjunct2, THEN conjunct2, THEN conjunct2, THEN conjunct2, THEN conjunct2,
      THEN conjunct1]
  have "\<forall>a b new. ''run.something.template'' = a @ ''template'' @ b \<and>
      (\<forall>i < length a. \<not> occurs_at ''template'' ''run.something.template'' i) \<longrightarrow>
      str_replace ''run.something.template'' ''template'' new =
        a @ new @ str_replace b ''template'' new" .
  from this [rule_format, of "''run.something.''" "[]" "''cfg''"] split occ
  have "str_replace ''run.something.template'' ''template'' ''cfg'' =
        ''run.something.'' @ ''cfg'' @ str_replace [] ''template'' ''cfg''"
    by (elim meta_mp) (intro conjI, assumption+)
  then have r: "str_replace ''run.something.template'' ''template'' ''cfg'' = ''run.something.'' @ ''cfg''"
    by (simp add: str_replace_def)
  from destination_by_first_segment [where fname = "''runs.cfg''", THEN conjunct2, THEN conjunct2, THEN conjunct2, THEN conjunct2, THEN conjunct2,
      THEN conjunct1]
  have "(\<forall>i. \<not> occurs_at ''template'' ''runs.cfg'' i) \<longrightarrow> filename_dest ''runs.cfg'' = ''runs.cfg''" .
  with none have kept: "filename_dest ''runs.cfg'' = ''runs.cfg''" by (rule rev_mp)
  have s1: "hd (str_split CHR ''.'' ''run.something.template'') = ''run''" by simp
  have s2: "hd (str_split CHR ''.'' ''species.template'') \<noteq> ''run''" by simp
  have p1: "dest_path ''run.something.template'' = ''./etc/picongpu/'' @ ''run.something.cfg''"
    by (simp add: filename_dest_examples)
  have p2: "dest_path ''species.template'' = ''./include/picongpu/param/'' @ ''species.param''"
    by (simp add: filename_dest_examples)
  show ?thesis
    by (intro conjI) (rule s1 p1 s2 p2 occ' r none kept)+
qed

text \<open>
  C6. The render context has the keys of the three merged buckets; a key of
  several buckets has the comma-appendable value first, then the appendable value, then
  the main value.
\<close>

theorem render_context_precedence:
  "map_of (templateArgs objs fname) K =
     (case map_of (templateCommaAppendableArgs objs fname) K of
        Some v \<Rightarrow> Some v
      | None \<Rightarrow> (case map_of (templateAppendableArgs objs fname) K of
                   Some v \<Rightarrow> Some v
                 | None \<Rightarrow> map_of (templateMainArgs objs fname) K)) \<and>
   set (dict_keys (templateArgs objs fname)) =
     set (dict_keys (templateMainArgs objs fname)) \<union>
     set (dict_keys (templateAppendableArgs objs fname)) \<union>
     set (dict_keys (templateCommaAppendableArgs objs fname))"
  by (simp add: templateArgs_lookup templateArgs_keys)

theorem render_context_precedence_witness:
  "map_of (templateCommaAppendableArgs [obj_clash] ''particle.template'') ''K'' = Some (PyStr ''b'') \<and>
   map_of (templateAppendableArgs [obj_clash] ''particle.template'') ''K'' = Some (PyStr ''a'') \<and>
   map_of (templateArgs [obj_clash] ''particle.template'') ''K'' = Some (PyStr ''b'') \<and>
   map_of (templateAppendableArgs [objA, objB] ''particle.template'') ''a'' = None \<and>
   map_of (templateCommaAppendableArgs [objA, objB] ''particle.template'') ''a'' = None \<and>
   map_of (templateMainArgs [objA, objB] ''particle.template'') ''a'' = Some (PyInt 2) \<and>
   map_of (templateArgs [objA, objB] ''particle.template'') ''a'' = Some (PyInt 2)"
proof -
  have c: "map_of (templateCommaAppendableArgs [obj_clash] ''particle.template'') ''K''
             = Some (PyStr ''b'')"
    by (simp add: eval_defs obj_clash_def)
  have a: "map_of (templateAppendableArgs [obj_clash] ''particle.template'') ''K''
             = Some (PyStr ''a'')"
    by (simp add: eval_defs obj_clash_def)
  have a2: "map_of (templateAppendableArgs [objA, objB] ''particle.template'') ''a'' = None"
    by (simp add: eval_defs objA_def objB_def)
  have c2: "map_of (templateCommaAppendableArgs [objA, objB] ''particle.template'') ''a'' = None"
    by (simp add: eval_defs objA_def objB_def)
  have m2: "map_of (templateMainArgs [objA, objB] ''particle.template'') ''a'' = Some (PyInt 2)"
    by (simp add: eval_defs objA_def objB_def)
  show ?thesis
    using render_context_precedence [of "[obj_clash]" "''particle.template''" "''K''"]
      render_context_precedence [of "[objA, objB]" "''particle.template''" "''a''"]
    by (simp add: c a a2 c2 m2)
qed

text \<open>
  C7. When some discovered target file has no template, the pass ends with
  \<open>TemplateNotFound\<close> for the first such file; the state it leaves is the state after the
  files before that one were written, and nothing is rendered or written for that file
  or a later one.
\<close>

theorem missing_template_aborts_without_rollback:
  assumes "\<exists>f \<in> set (FilesList objs). load f = None"
  shows "\<exists>pre g post st'.
           FilesList objs = pre @ g # post \<and>
           (\<forall>h \<in> set pre. load h \<noteq> None) \<and> load g = None \<and>
           WriteSimulationFiles load rd objs st = (st', Some (TemplateNotFound g)) \<and>
           render_files load rd objs pre st = (st', None) \<and>
           stdout st' = stdout st @ map filename_dest pre \<and>
           disk st' = fold (\<lambda>f d. d(dest_path f \<mapsto> rd (the (load f)) (templateArgs objs f)))
                        pre (disk st)"
proof -
  from split_list_first_prop [OF assms]
  obtain pre g post where fl: "FilesList objs = pre @ g # post"
    and g: "load g = None" and pre: "\<forall>h \<in> set pre. load h \<noteq> None"
    by auto
  let ?st' = "fold (\<lambda>f s. write_file rd objs f (the (load f)) s) pre st"
  have done_pre: "render_files load rd objs pre st = (?st', None)"
    by (rule render_files_all [OF pre])
  have "WriteSimulationFiles load rd objs st = (?st', Some (TemplateNotFound g))"
    by (simp add: WriteSimulationFiles_def fl render_files_abort [OF pre g] done_pre)
  with fl g pre done_pre show ?thesis
    by (intro exI [of _ pre] exI [of _ g] exI [of _ post] exI [of _ ?st'])
      (simp add: stdout_fold_write disk_fold_write)
qed

theorem missing_template_aborts_without_rollback_witness:
  "(\<exists>f \<in> set (FilesList [objA, objB]). load_some f = None) \<and>
   FilesList [objA, objB] =
     [''particle.template'', ''run.something.template'', ''species.template''] \<and>
   snd (WriteSimulationFiles load_some render_keys [objA, objB] st0) =
     Some (TemplateNotFound ''run.something.template'') \<and>
   stdout (fst (WriteSimulationFiles load_some render_keys [objA, objB] st0)) = [''particle.param'']"
proof -
  have fl: "FilesList [objA, objB] =
     [''particle.template'', ''run.something.template'', ''species.template'']"
    by (simp add: FilesList_def objA_def objB_def)
  have h: "\<exists>f \<in> set (FilesList [objA, objB]). load_some f = None"
    by (simp add: fl load_some_def)
  from missing_template_aborts_without_rollback [OF h, of render_keys st0]
  obtain pre g post st' where
    dec: "FilesList [objA, objB] = pre @ g # post"
    and pre: "\<forall>h \<in> set pre. load_some h \<noteq> None" and g: "load_some g = None"
    and w: "WriteSimulationFiles load_some render_keys [objA, objB] st0 =
             (st', Some (TemplateNotFound g))"
    and so: "stdout st' = stdout st0 @ map filename_dest pre"
    by blast
  have geq: "g = ''run.something.template''"
    using g by (simp add: load_some_def split: if_splits)
  have "pre = takeWhile (\<lambda>h. load_some h \<noteq> None) (FilesList [objA, objB])"
    using pre g by (simp add: dec takeWhile_append2)
  then have "pre = [''particle.template'']"
    by (simp add: fl load_some_def)
  with so have "stdout st' = [''particle.param'']"
    by (simp add: st0_def filename_dest_examples filename_dest_def str_replace_def)
  with w h fl geq show ?thesis by simp
qed

section \<open>The claims about \<open>Particle\<close>\<close>

lemmas particle_defs =
  Particle_init_def build_params_def bind_def ParticleShape_def positions_params_def
  ionizable_params_def mass_charge_params_def stringify_def template_species_def
  template_speciesDefinition_def manipulator_list_def template_particle_def
  createManipulate_list_def template_speciesInitialization_def template_density_def
  table_get_def dict_get_def py_index_def show_int_def dict_merge_def

lemma bind_Inl: "bind (Inl e) f = Inl e"
  by (simp add: bind_def)

lemma bind_Inr: "bind (Inr v) f = f v"
  by (simp add: bind_def)

lemma bind_eq_Inr: "bind r f = Inr y \<longleftrightarrow> (\<exists>v. r = Inr v \<and> f v = Inr y)"
  by (cases r) (simp_all add: bind_def)

lemma bind_eq_Inl: "bind r f = Inl e \<longleftrightarrow> r = Inl e \<or> (\<exists>v. r = Inr v \<and> f v = Inl e)"
  by (cases r) (simp_all add: bind_def)

lemma Particle_init_Inr:
  assumes "Particle_init env nm args = Inr p"
  shows "\<exists>params tsd tp td.
           build_params env nm args = Inr params \<and>
           template_speciesDefinition env nm args params = Inr tsd \<and>
           template_particle env args params = Inr tp \<and>
           template_density env args params = Inr td \<and>
           p = \<lparr>templates = [template_species env params, tp, tsd,
                              template_speciesInitialization env args params, td],
                name = nm\<rparr>"
  using assms by (auto simp: Particle_init_def bind_eq_Inr Let_def)

lemma manipulator_list_plain:
  assumes "\<not> is_ionizable (species args)" and "initial_temperature args = PyNone"
  shows "manipulator_list env args params = Inr []"
  using assms by (simp add: manipulator_list_def is_ionizable_def bind_Inr)

lemma map_of_dict_set_same: "map_of (dict_set k v d) k = Some v"
  by (simp add: map_of_dict_set)

lemma template_particle_Inr:
  fixes env :: "'f particle_env"
  assumes "template_particle env args params = Inr tp"
  shows "\<exists>appendable ms.
           manipulator_list env args params = Inr ms \<and>
           filename tp = ''particle.template'' \<and>
           AppendableArgs tp = Some (dict_set ''Manipulators'' (join ''\<newline>'' ms) appendable) \<and>
           CommaAppendableArgs tp = None \<and>
           dict_wf appendable"
proof -
  from assms obtain appendable ms where
    a: "(case initial_positions args of
           None \<Rightarrow> Inr []
         | Some (kind, payload) \<Rightarrow>
             bind (table_get (StartPosition env) kind) (\<lambda>text.
               Inr [(''StartPosition'', mako_render env text params)])) =
        (Inr appendable :: 'f error + string dict)"
    and m: "manipulator_list env args params = Inr ms"
    and tp: "tp = \<lparr>filename = ''particle.template'',
            MainArgs = (if typicalNppc args \<noteq> PyNone then Some params else None),
            AppendableArgs = Some (dict_set ''Manipulators'' (join ''\<newline>'' ms) appendable),
            CommaAppendableArgs = None\<rparr>"
    unfolding template_particle_def bind_eq_Inr by auto
  from a have "dict_wf appendable"
    by (auto simp: bind_eq_Inr dict_wf_def dict_keys_def split: option.splits prod.splits)
  with m tp show ?thesis by auto
qed

lemma template_speciesInitialization_shape:
  "filename (template_speciesInitialization env args params) = ''speciesInitialization.template'' \<and>
   MainArgs (template_speciesInitialization env args params) = None \<and>
   AppendableArgs (template_speciesInitialization env args params) = None \<and>
   CommaAppendableArgs (template_speciesInitialization env args params) =
     Some (if density_profile args \<noteq> None \<or> is_ionizable (species args)
           then [(''CreateManipulate'', join '',\<newline>'' (createManipulate_list env args params))]
           else [])"
  by (simp add: template_speciesInitialization_def createManipulate_list_def is_ionizable_def Let_def)

lemma template_filenames:
  assumes "Particle_init env nm args = Inr p"
  shows "map filename (templates p) =
           [''species.template'', ''particle.template'', ''speciesDefinition.template'',
            ''speciesInitialization.template'', ''density.template'']"
proof -
  from Particle_init_Inr [OF assms] obtain params tsd tp td where
    tsd: "template_speciesDefinition env nm args params = Inr tsd"
    and tp: "template_particle env args params = Inr tp"
    and td: "template_density env args params = Inr td"
    and p: "p = \<lparr>templates = [template_species env params, tp, tsd,
                              template_speciesInitialization env args params, td],
                name = nm\<rparr>" by blast
  from tsd have 1: "filename tsd = ''speciesDefinition.template''"
    by (auto simp: template_speciesDefinition_def bind_eq_Inr)
  from template_particle_Inr [OF tp] have 2: "filename tp = ''particle.template''" by blast
  from td have 3: "filename td = ''density.template''"
    by (auto simp: template_density_def bind_eq_Inr)
  show ?thesis
    by (simp add: p 1 2 3 template_species_def template_speciesInitialization_shape)
qed

lemma py_index_not_ValueError: "py_index v i \<noteq> Inl (ValueError msg)"
  by (simp add: py_index_def split: pyval.splits)

lemma positions_params_not_ValueError: "positions_params ip params \<noteq> Inl (ValueError msg)"
  by (auto simp: positions_params_def bind_eq_Inl py_index_not_ValueError
      split: option.splits prod.splits)

lemma positions_params_indep:
  "positions_params ip params = Inr q \<Longrightarrow> \<exists>q'. positions_params ip params' = Inr q'"
  by (auto simp: positions_params_def bind_eq_Inr split: option.splits prod.splits if_splits)

lemma ionizable_params_missing:
  assumes "is_ionizable (species args)" and "element args = None"
  shows "ionizable_params args params =
           Inl (ValueError (species args @ '' needs `element` argument''))"
  using assms by (simp add: ionizable_params_def is_ionizable_def)

lemma ionizable_params_not_ValueError:
  assumes "element args \<noteq> None"
  shows "ionizable_params args params \<noteq> Inl (ValueError msg)"
  using assms by (auto simp: ionizable_params_def split: option.splits)

lemma mass_charge_params_ValueError:
  assumes "mass_charge_params env args params = Inl (ValueError msg)"
  shows "species args = ''ion'' \<and> table_element env (element args) = Inl (ValueError msg)"
  using assms
  by (auto simp: mass_charge_params_def bind_eq_Inl split: if_splits prod.splits)

lemma ParticleShape_not_ValueError: "ParticleShape n \<noteq> Inl (ValueError msg)"
  by (simp add: ParticleShape_def)

lemma ParticleShape_ok: "n \<in> {1, 2, 3, 4} \<Longrightarrow> \<exists>shape. ParticleShape n = Inr shape"
  by (auto simp: ParticleShape_def)

lemma table_get_not_ValueError: "table_get table key \<noteq> Inl (ValueError msg)"
  by (simp add: table_get_def split: option.splits)

lemma dict_get_not_ValueError: "dict_get d key \<noteq> Inl (ValueError msg)"
  by (simp add: dict_get_def split: option.splits)

lemma build_params_ValueError:
  assumes "element args \<noteq> None" and "build_params env nm args = Inl (ValueError msg)"
  shows "species args = ''ion'' \<and> table_element env (element args) = Inl (ValueError msg)"
proof -
  from assms(2) obtain params where
    "mass_charge_params env args params = Inl (ValueError msg)"
    by (auto simp: build_params_def bind_eq_Inl Let_def ParticleShape_not_ValueError
        positions_params_not_ValueError ionizable_params_not_ValueError [OF assms(1)])
  then show ?thesis by (rule mass_charge_params_ValueError)
qed

lemma template_speciesDefinition_not_ValueError:
  "template_speciesDefinition env nm args params \<noteq> Inl (ValueError msg)"
  by (auto simp: template_speciesDefinition_def bind_eq_Inl table_get_not_ValueError)

lemma manipulator_list_not_ValueError:
  "manipulator_list env args params \<noteq> Inl (ValueError msg)"
  by (auto simp: manipulator_list_def bind_eq_Inl table_get_not_ValueError)

lemma template_particle_not_ValueError:
  "template_particle env args params \<noteq> Inl (ValueError msg)"
  by (auto simp: template_particle_def bind_eq_Inl table_get_not_ValueError
      manipulator_list_not_ValueError split: option.splits prod.splits)

lemma template_density_not_ValueError:
  "template_density env args params \<noteq> Inl (ValueError msg)"
  by (auto simp: template_density_def bind_eq_Inl table_get_not_ValueError
      dict_get_not_ValueError split: option.splits pyval.splits if_splits)

lemma Particle_init_ValueError:
  assumes "element args \<noteq> None" and "Particle_init env nm args = Inl (ValueError msg)"
  shows "species args = ''ion'' \<and> table_element env (element args) = Inl (ValueError msg)"
proof -
  from assms(2) have "build_params env nm args = Inl (ValueError msg)"
    by (auto simp: Particle_init_def bind_eq_Inl Let_def
        template_speciesDefinition_not_ValueError template_particle_not_ValueError
        template_density_not_ValueError)
  with assms(1) show ?thesis by (rule build_params_ValueError)
qed

lemma build_params_missing_element:
  assumes "is_ionizable (species args)" and "element args = None"
  shows "\<exists>e. build_params env nm args = Inl e"
proof (cases "build_params env nm args")
  case (Inl e)
  then show ?thesis by blast
next
  case (Inr params)
  then have False
    by (auto simp: build_params_def bind_eq_Inr Let_def ionizable_params_missing [OF assms])
  then show ?thesis ..
qed

lemma build_params_missing_element_error:
  fixes env :: "'f particle_env"
  assumes "is_ionizable (species args)" and "element args = None"
    and "shape_order args \<in> {1, 2, 3, 4}"
    and "positions_params (initial_positions args) [] = Inr q"
  shows "build_params env nm args =
           Inl (ValueError (species args @ '' needs `element` argument''))"
proof -
  from ParticleShape_ok [OF assms(3)] obtain shape
    where shape: "ParticleShape (shape_order args) = (Inr shape :: 'f error + string)"
    by blast
  let ?params0 = "dict_set ''Temperature'' (initial_temperature args)
     (dict_set ''ParticlePusher'' (pusher args)
     (dict_set ''CurrentSolver'' (current_deposition args)
     (dict_set ''ParticleShape'' (PyStr shape)
     (dict_set ''type'' (PyStr (species args)) (dict_set ''name'' (PyStr nm) [])))))"
  from positions_params_indep [OF assms(4), of ?params0]
  obtain q' where "positions_params (initial_positions args) ?params0 = Inr q'" by blast
  then show ?thesis
    by (simp add: build_params_def shape bind_Inr bind_Inl Let_def
        ionizable_params_missing [OF assms(1,2)])
qed

text \<open>
  C8. Constructing a \<open>Particle\<close> whose species is \<open>ion\<close> or \<open>generic_ionizable\<close>
  without an element raises in the constructor, so no object exists to hand to the
  writer: the exception is the \<open>ValueError\<close> of line 155 whenever the lines before it pass
  (the shape order is one of 1 to 4 and the initial positions can be read). With an
  element, the check of lines 153 to 155 raises no \<open>ValueError\<close>: a \<open>ValueError\<close> that
  leaves the constructor is then the one that the lookup of the element in the periodic
  table (line 166) raised.
\<close>

theorem ionizable_species_needs_element:
  "(is_ionizable (species args) \<and> element args = None \<longrightarrow>
      (\<exists>e. Particle_init env nm args = Inl e) \<and>
      (\<forall>q. shape_order args \<in> {1, 2, 3, 4} \<and>
         positions_params (initial_positions args) [] = Inr q \<longrightarrow>
         Particle_init env nm args =
           Inl (ValueError (species args @ '' needs `element` argument'')))) \<and>
   (element args \<noteq> None \<longrightarrow>
      (\<forall>params msg. ionizable_params args params \<noteq> Inl (ValueError msg)) \<and>
      (\<forall>msg. Particle_init env nm args = Inl (ValueError msg) \<longrightarrow>
         species args = ''ion'' \<and> table_element env (element args) = Inl (ValueError msg)))"
proof (intro conjI impI allI)
  assume h: "is_ionizable (species args) \<and> element args = None"
  then obtain e where "build_params env nm args = Inl e"
    using build_params_missing_element by blast
  then show "\<exists>e. Particle_init env nm args = Inl e"
    by (simp add: Particle_init_def bind_Inl)
next
  fix q
  assume h: "is_ionizable (species args) \<and> element args = None"
    and ok: "shape_order args \<in> {1, 2, 3, 4} \<and>
             positions_params (initial_positions args) [] = Inr q"
  then have "build_params env nm args =
               Inl (ValueError (species args @ '' needs `element` argument''))"
    using build_params_missing_element_error by blast
  then show "Particle_init env nm args =
               Inl (ValueError (species args @ '' needs `element` argument''))"
    by (simp add: Particle_init_def bind_Inl)
next
  fix params msg
  assume "element args \<noteq> None"
  then show "ionizable_params args params \<noteq> Inl (ValueError msg)"
    by (rule ionizable_params_not_ValueError)
next
  fix msg
  assume "element args \<noteq> None" and "Particle_init env nm args = Inl (ValueError msg)"
  then show "species args = ''ion''"
    using Particle_init_ValueError by blast
next
  fix msg
  assume "element args \<noteq> None" and "Particle_init env nm args = Inl (ValueError msg)"
  then show "table_element env (element args) = Inl (ValueError msg)"
    using Particle_init_ValueError by blast
qed

theorem ionizable_species_needs_element_witness:
  "is_ionizable (species (ion_args\<lparr>element := None\<rparr>)) \<and>
   element (ion_args\<lparr>element := None\<rparr>) = None \<and>
   shape_order (ion_args\<lparr>element := None\<rparr>) = 1 \<and>
   Particle_init env0 ''Ions'' (ion_args\<lparr>element := None\<rparr>) =
     Inl (ValueError ''ion needs `element` argument'') \<and>
   element ion_args \<noteq> None \<and>
   (\<exists>p. Particle_init env0 ''Ions'' ion_args = Inr p) \<and>
   element (ion_args\<lparr>element := Some ''Unobtainium''\<rparr>) \<noteq> None \<and>
   Particle_init env0 ''Ions'' (ion_args\<lparr>element := Some ''Unobtainium''\<rparr>) =
     Inl (ValueError ''Element not found: Unobtainium'') \<and>
   table_element env0 (Some ''Unobtainium'') = Inl (ValueError ''Element not found: Unobtainium'')"
proof -
  let ?a = "ion_args\<lparr>element := None\<rparr>"
  let ?u = "ion_args\<lparr>element := Some ''Unobtainium''\<rparr>"
  have i: "is_ionizable (species ?a) \<and> element ?a = None"
    by (simp add: ion_args_def electron_args_def is_ionizable_def)
  have sh: "shape_order ?a = 1"
    by (simp add: ion_args_def electron_args_def)
  have pos: "positions_params (initial_positions ?a) [] = Inr [(''Nppc'', PyInt 2)]"
    by (simp add: ion_args_def electron_args_def positions_params_def)
  have ok: "shape_order ?a \<in> {1, 2, 3, 4} \<and>
            positions_params (initial_positions ?a) [] = Inr [(''Nppc'', PyInt 2)]"
    using sh pos by simp
  have sp: "species ?a = ''ion''" by (simp add: ion_args_def)
  have el: "element ion_args \<noteq> None" by (simp add: ion_args_def)
  have elu: "element ?u \<noteq> None" by simp
  have elv: "element ?u = Some ''Unobtainium''" by simp
  from ionizable_species_needs_element [of ?a env0 "''Ions''", THEN conjunct1, rule_format, OF i,
      THEN conjunct2, rule_format, OF ok]
  have e0: "Particle_init env0 ''Ions'' ?a =
              Inl (ValueError (species ?a @ '' needs `element` argument''))" .
  then have e1: "Particle_init env0 ''Ions'' ?a = Inl (ValueError ''ion needs `element` argument'')"
    by (simp only: sp) simp
  have e2: "\<exists>p. Particle_init env0 ''Ions'' ion_args = Inr p"
    by (simp add: particle_defs env0_def electron_args_def ion_args_def)
  have e3: "Particle_init env0 ''Ions'' ?u = Inl (ValueError ''Element not found: Unobtainium'')"
    by (simp add: particle_defs env0_def electron_args_def ion_args_def)
  from ionizable_species_needs_element [of ?u env0 "''Ions''", THEN conjunct2, rule_format,
      OF elu, THEN conjunct2, rule_format, OF e3]
  have "table_element env0 (element ?u) = Inl (ValueError ''Element not found: Unobtainium'')"
    by (rule conjunct2)
  then have e4: "table_element env0 (Some ''Unobtainium'') =
                   Inl (ValueError ''Element not found: Unobtainium'')"
    by (simp only: elv)
  show ?thesis
    by (intro conjI) (rule i [THEN conjunct1] i [THEN conjunct2] sh e1 el e2 elu e3 e4)+
qed

lemma dict_wf_singleton: "dict_wf [(k, v)]"
  by (simp add: dict_wf_def dict_keys_def)

lemma Particle_init_templates:
  assumes "Particle_init env nm args = Inr p"
  shows "\<exists>ts tp tsd td appendable ms.
           templates p = [ts, tp, tsd, template_speciesInitialization env args
                            (case build_params env nm args of Inr params \<Rightarrow> params | Inl e \<Rightarrow> []), td] \<and>
           filename ts = ''species.template'' \<and>
           filename tp = ''particle.template'' \<and>
           filename tsd = ''speciesDefinition.template'' \<and>
           filename td = ''density.template'' \<and>
           wf_template ts \<and> wf_template tp \<and> wf_template tsd \<and> wf_template td \<and>
           manipulator_list env args
             (case build_params env nm args of Inr params \<Rightarrow> params | Inl e \<Rightarrow> []) = Inr ms \<and>
           AppendableArgs tp = Some (dict_set ''Manipulators'' (join ''\<newline>'' ms) appendable) \<and>
           CommaAppendableArgs tp = None \<and>
           dict_wf appendable"
proof -
  from Particle_init_Inr [OF assms] obtain params tsd tp td where
    bp: "build_params env nm args = Inr params"
    and tsd: "template_speciesDefinition env nm args params = Inr tsd"
    and tp: "template_particle env args params = Inr tp"
    and td: "template_density env args params = Inr td"
    and p: "p = \<lparr>templates = [template_species env params, tp, tsd,
                              template_speciesInitialization env args params, td],
                name = nm\<rparr>" by blast
  from tsd have 1: "filename tsd = ''speciesDefinition.template'' \<and> wf_template tsd"
    by (auto simp: template_speciesDefinition_def bind_eq_Inr wf_template_def wf_bucket_def
        dict_wf_singleton)
  from template_particle_Inr [OF tp] obtain appendable ms where
    ms: "manipulator_list env args params = Inr ms"
    and fn: "filename tp = ''particle.template''"
    and ap: "AppendableArgs tp = Some (dict_set ''Manipulators'' (join ''\<newline>'' ms) appendable)"
    and cm: "CommaAppendableArgs tp = None"
    and wf: "dict_wf appendable" by blast
  have 2: "wf_template tp"
    by (simp add: wf_template_def wf_bucket_def ap cm dict_wf_dict_set [OF wf])
  from td have 3: "filename td = ''density.template'' \<and> wf_template td"
    by (auto simp: template_density_def bind_eq_Inr wf_template_def wf_bucket_def
        dict_wf_singleton dict_wf_Nil split: option.splits)
  have 4: "filename (template_species env params) = ''species.template'' \<and>
           wf_template (template_species env params)"
    by (simp add: template_species_def wf_template_def wf_bucket_def dict_wf_singleton)
  show ?thesis
    using 1 2 3 4 ms fn ap cm wf by (auto simp: p bp)
qed

lemma wf_template_speciesInitialization:
  "wf_template (template_speciesInitialization env args params)"
  by (simp add: wf_template_def wf_bucket_def template_speciesInitialization_shape
      dict_wf_singleton dict_wf_Nil)

lemma particle_contribution:
  assumes "Particle_init env nm args = Inr p"
  shows "\<exists>tp appendable ms.
           filter (\<lambda>t. filename t = ''particle.template'') (templates p) = [tp] \<and>
           AppendableArgs tp = Some (dict_set ''Manipulators'' (join ''\<newline>'' ms) appendable) \<and>
           CommaAppendableArgs tp = None \<and>
           (\<not> is_ionizable (species args) \<and> initial_temperature args = PyNone \<longrightarrow> ms = []) \<and>
           list_all wf_template (templates p)"
proof -
  let ?params = "case build_params env nm args of Inr params \<Rightarrow> params | Inl e \<Rightarrow> []"
  from Particle_init_templates [OF assms] obtain ts tp tsd td appendable ms where
    t: "templates p = [ts, tp, tsd, template_speciesInitialization env args ?params, td]"
    and f: "filename ts = ''species.template''" "filename tp = ''particle.template''"
      "filename tsd = ''speciesDefinition.template''" "filename td = ''density.template''"
    and w: "wf_template ts" "wf_template tp" "wf_template tsd" "wf_template td"
    and ms: "manipulator_list env args ?params = Inr ms"
    and ap: "AppendableArgs tp = Some (dict_set ''Manipulators'' (join ''\<newline>'' ms) appendable)"
    and cm: "CommaAppendableArgs tp = None"
    by blast
  have flt: "filter (\<lambda>t. filename t = ''particle.template'') (templates p) = [tp]"
    by (simp add: t f template_speciesInitialization_shape)
  have plain: "\<not> is_ionizable (species args) \<and> initial_temperature args = PyNone \<longrightarrow> ms = []"
    using ms manipulator_list_plain [of args env ?params] by auto
  have "list_all wf_template (templates p)"
    by (simp add: t w wf_template_speciesInitialization)
  with flt ap cm plain show ?thesis by blast
qed

lemma join_empty_first: "join sep [[], y] = sep @ y"
  by simp

text \<open>
  C9. Every constructed \<open>Particle\<close> has one contribution to \<open>particle.template\<close>, and
  its appendable bucket binds \<open>Manipulators\<close>. For a species that is neither \<open>ion\<close> nor
  \<open>generic_ionizable\<close> and has no initial temperature the fragment is the empty string;
  merged with the fragment of a second species it gives a value that starts with an
  empty line.
\<close>

theorem particle_template_binds_Manipulators:
  assumes "Particle_init env nm args = Inr p"
  shows "\<exists>tp a m.
           filter (\<lambda>t. filename t = ''particle.template'') (templates p) = [tp] \<and>
           AppendableArgs tp = Some a \<and> map_of a ''Manipulators'' = Some m \<and>
           (\<not> is_ionizable (species args) \<and> initial_temperature args = PyNone \<longrightarrow> m = []) \<and>
           (\<forall>nm2 args2 p2.
              \<not> is_ionizable (species args) \<and> initial_temperature args = PyNone \<and>
              Particle_init env nm2 args2 = Inr p2 \<longrightarrow>
              (\<exists>m2. map_of (templateArgs [p, p2] ''particle.template'') ''Manipulators'' =
                      Some (PyStr (''\<newline>'' @ m2))))"
proof -
  from particle_contribution [OF assms] obtain tp appendable ms where
    flt: "filter (\<lambda>t. filename t = ''particle.template'') (templates p) = [tp]"
    and ap: "AppendableArgs tp = Some (dict_set ''Manipulators'' (join ''\<newline>'' ms) appendable)"
    and cm: "CommaAppendableArgs tp = None"
    and plain: "\<not> is_ionizable (species args) \<and> initial_temperature args = PyNone \<longrightarrow> ms = []"
    and wf: "list_all wf_template (templates p)"
    by blast
  let ?a = "dict_set ''Manipulators'' (join ''\<newline>'' ms) appendable"
  have look: "map_of ?a ''Manipulators'' = Some (join ''\<newline>'' ms)"
    by (rule map_of_dict_set_same)
  have empty: "\<not> is_ionizable (species args) \<and> initial_temperature args = PyNone \<longrightarrow>
               join ''\<newline>'' ms = []"
    using plain by auto
  have merged: "\<exists>m2. map_of (templateArgs [p, p2] ''particle.template'') ''Manipulators'' =
                      Some (PyStr (''\<newline>'' @ m2))"
    if h: "\<not> is_ionizable (species args) \<and> initial_temperature args = PyNone \<and>
           Particle_init env nm2 args2 = Inr p2" for nm2 args2 p2
  proof -
    from h have init2: "Particle_init env nm2 args2 = Inr p2" by blast
    from particle_contribution [OF init2] obtain tp2 appendable2 ms2 where
      flt2: "filter (\<lambda>t. filename t = ''particle.template'') (templates p2) = [tp2]"
      and ap2: "AppendableArgs tp2 =
                  Some (dict_set ''Manipulators'' (join ''\<newline>'' ms2) appendable2)"
      and cm2: "CommaAppendableArgs tp2 = None"
      and wf2: "list_all wf_template (templates p2)"
      by blast
    have wfo: "wf_objects [p, p2]" by (simp add: wf_objects_def wf wf2)
    have con: "contributions [p, p2] ''particle.template'' = [tp, tp2]"
      by (simp add: contributions_def flt flt2)
    from h empty have e: "join ''\<newline>'' ms = []" by blast
    have fa: "fragments AppendableArgs (contributions [p, p2] ''particle.template'') ''Manipulators''
                = [[], join ''\<newline>'' ms2]"
      by (simp add: con fragments_def ap ap2 map_of_dict_set_same e)
    have fc: "fragments CommaAppendableArgs (contributions [p, p2] ''particle.template'')
                ''Manipulators'' = []"
      by (simp add: con fragments_def cm cm2)
    have "map_of (templateArgs [p, p2] ''particle.template'') ''Manipulators'' =
            Some (PyStr (''\<newline>'' @ join ''\<newline>'' ms2))"
      by (simp add: templateArgs_lookup comma_lookup [OF wfo] appendable_lookup [OF wfo] fa fc)
    then show ?thesis by blast
  qed
  from flt ap look empty merged show ?thesis by blast
qed

theorem particle_template_binds_Manipulators_witness:
  "\<exists>p p2 m2.
     Particle_init env0 ''Electrons'' electron_args = Inr p \<and>
     Particle_init env0 ''Ions'' ion_args = Inr p2 \<and>
     \<not> is_ionizable (species electron_args) \<and>
     initial_temperature electron_args = PyNone \<and>
     map_of (templateArgs [p, p2] ''particle.template'') ''Manipulators'' =
       Some (PyStr (''\<newline>'' @ m2))"
proof -
  obtain p where p: "Particle_init env0 ''Electrons'' electron_args = Inr p"
    by (simp add: particle_defs env0_def electron_args_def)
  obtain p2 where p2: "Particle_init env0 ''Ions'' ion_args = Inr p2"
    by (simp add: particle_defs env0_def electron_args_def ion_args_def)
  have plain: "\<not> is_ionizable (species electron_args) \<and> initial_temperature electron_args = PyNone"
    by (simp add: electron_args_def is_ionizable_def)
  from particle_template_binds_Manipulators [OF p] obtain tp a m where
    "\<forall>nm2 args2 p2.
        \<not> is_ionizable (species electron_args) \<and> initial_temperature electron_args = PyNone \<and>
        Particle_init env0 nm2 args2 = Inr p2 \<longrightarrow>
        (\<exists>m2. map_of (templateArgs [p, p2] ''particle.template'') ''Manipulators'' =
                Some (PyStr (''\<newline>'' @ m2)))"
    by blast
  with plain p2 obtain m2 where
    "map_of (templateArgs [p, p2] ''particle.template'') ''Manipulators'' =
       Some (PyStr (''\<newline>'' @ m2))"
    by blast
  with p p2 plain show ?thesis by blast
qed

lemma speciesInitialization_contribution:
  assumes "Particle_init env nm args = Inr p"
  shows "\<exists>params.
           filter (\<lambda>t. filename t = ''speciesInitialization.template'') (templates p) =
             [template_speciesInitialization env args params] \<and>
           list_all wf_template (templates p)"
proof -
  let ?params = "case build_params env nm args of Inr params \<Rightarrow> params | Inl e \<Rightarrow> []"
  from Particle_init_templates [OF assms] obtain ts tp tsd td where
    t: "templates p = [ts, tp, tsd, template_speciesInitialization env args ?params, td]"
    and f: "filename ts = ''species.template''" "filename tp = ''particle.template''"
      "filename tsd = ''speciesDefinition.template''" "filename td = ''density.template''"
    and w: "wf_template ts" "wf_template tp" "wf_template tsd" "wf_template td"
    by blast
  have "filter (\<lambda>t. filename t = ''speciesInitialization.template'') (templates p) =
          [template_speciesInitialization env args ?params]"
    by (simp add: t f template_speciesInitialization_shape)
  moreover have "list_all wf_template (templates p)"
    by (simp add: t w wf_template_speciesInitialization)
  ultimately show ?thesis by blast
qed

lemma key_in_dict_iff: "K \<in> set (dict_keys d) \<longleftrightarrow> map_of d K \<noteq> None"
  by (simp add: dict_keys_def map_of_eq_None_iff)

text \<open>
  C10. The contribution of a constructed \<open>Particle\<close> to
  \<open>speciesInitialization.template\<close> has the comma-appendable key \<open>CreateManipulate\<close>
  exactly when a density profile is given or the species is \<open>ion\<close> or
  \<open>generic_ionizable\<close>; the writer's render context for that object alone has the key in
  exactly the same case, so it is the object that leaves the key out.
\<close>

theorem CreateManipulate_key_by_object:
  assumes "Particle_init env nm args = Inr p"
  shows "\<exists>t c.
           filter (\<lambda>t. filename t = ''speciesInitialization.template'') (templates p) = [t] \<and>
           MainArgs t = None \<and> AppendableArgs t = None \<and> CommaAppendableArgs t = Some c \<and>
           (''CreateManipulate'' \<in> set (dict_keys c) \<longleftrightarrow>
              density_profile args \<noteq> None \<or> species args = ''ion'' \<or>
              species args = ''generic_ionizable'') \<and>
           (''CreateManipulate'' \<in> set (dict_keys
                (templateArgs [p] ''speciesInitialization.template'')) \<longleftrightarrow>
              density_profile args \<noteq> None \<or> species args = ''ion'' \<or>
              species args = ''generic_ionizable'')"
proof -
  from speciesInitialization_contribution [OF assms] obtain params where
    flt: "filter (\<lambda>t. filename t = ''speciesInitialization.template'') (templates p) =
            [template_speciesInitialization env args params]"
    and wf: "list_all wf_template (templates p)" by blast
  let ?t = "template_speciesInitialization env args params"
  let ?cond = "density_profile args \<noteq> None \<or> species args = ''ion'' \<or>
               species args = ''generic_ionizable''"
  let ?c = "if ?cond
            then [(''CreateManipulate'', join '',\<newline>'' (createManipulate_list env args params))]
            else []"
  have shape: "MainArgs ?t = None" "AppendableArgs ?t = None" "CommaAppendableArgs ?t = Some ?c"
    using template_speciesInitialization_shape [of env args params]
    by (auto simp: is_ionizable_def)
  have own: "''CreateManipulate'' \<in> set (dict_keys ?c) \<longleftrightarrow> ?cond"
    by (cases ?cond) (simp_all add: dict_keys_def)
  have wfo: "wf_objects [p]" by (simp add: wf_objects_def wf)
  have con: "contributions [p] ''speciesInitialization.template'' = [?t]"
    by (simp add: contributions_def flt)
  have fc: "fragments CommaAppendableArgs (contributions [p] ''speciesInitialization.template'')
              ''CreateManipulate'' =
            (if ?cond then [join '',\<newline>'' (createManipulate_list env args params)] else [])"
    by (simp add: con fragments_def shape)
  have fa: "fragments AppendableArgs (contributions [p] ''speciesInitialization.template'')
              ''CreateManipulate'' = []"
    by (simp add: con fragments_def shape)
  have main: "templateMainArgs [p] ''speciesInitialization.template'' = []"
    by (simp add: main_lookup con shape)
  have ctx: "''CreateManipulate'' \<in> set (dict_keys
                (templateArgs [p] ''speciesInitialization.template'')) \<longleftrightarrow> ?cond"
    by (simp add: key_in_dict_iff templateArgs_lookup comma_lookup [OF wfo]
        appendable_lookup [OF wfo] fa fc main)
  from flt shape own ctx show ?thesis by blast
qed

theorem CreateManipulate_key_by_object_witness:
  "\<exists>p p2 t c t2 c2.
     Particle_init env0 ''Electrons'' electron_args = Inr p \<and>
     filter (\<lambda>t. filename t = ''speciesInitialization.template'') (templates p) = [t] \<and>
     CommaAppendableArgs t = Some c \<and>
     ''CreateManipulate'' \<notin> set (dict_keys c) \<and>
     ''CreateManipulate'' \<notin> set (dict_keys (templateArgs [p] ''speciesInitialization.template'')) \<and>
     Particle_init env0 ''Ions'' ion_args = Inr p2 \<and>
     filter (\<lambda>t. filename t = ''speciesInitialization.template'') (templates p2) = [t2] \<and>
     CommaAppendableArgs t2 = Some c2 \<and>
     ''CreateManipulate'' \<in> set (dict_keys c2) \<and>
     ''CreateManipulate'' \<in> set (dict_keys (templateArgs [p2] ''speciesInitialization.template''))"
proof -
  obtain p where p: "Particle_init env0 ''Electrons'' electron_args = Inr p"
    by (simp add: particle_defs env0_def electron_args_def)
  obtain p2 where p2: "Particle_init env0 ''Ions'' ion_args = Inr p2"
    by (simp add: particle_defs env0_def electron_args_def ion_args_def)
  have no: "\<not> (density_profile electron_args \<noteq> None \<or> species electron_args = ''ion'' \<or>
               species electron_args = ''generic_ionizable'')"
    by (simp add: electron_args_def)
  have yes: "density_profile ion_args \<noteq> None \<or> species ion_args = ''ion'' \<or>
             species ion_args = ''generic_ionizable''"
    by (simp add: ion_args_def)
  from CreateManipulate_key_by_object [OF p] no obtain t c where
    1: "filter (\<lambda>t. filename t = ''speciesInitialization.template'') (templates p) = [t]"
      "CommaAppendableArgs t = Some c"
      "''CreateManipulate'' \<notin> set (dict_keys c)"
      "''CreateManipulate'' \<notin> set (dict_keys (templateArgs [p] ''speciesInitialization.template''))"
    by blast
  from CreateManipulate_key_by_object [OF p2] yes obtain t2 c2 where
    2: "filter (\<lambda>t. filename t = ''speciesInitialization.template'') (templates p2) = [t2]"
      "CommaAppendableArgs t2 = Some c2"
      "''CreateManipulate'' \<in> set (dict_keys c2)"
      "''CreateManipulate'' \<in> set (dict_keys (templateArgs [p2] ''speciesInitialization.template''))"
    by blast
  from p p2 1 2 show ?thesis by blast
qed

end
